theory Spec2Isabelle
  imports Main
begin

section \<open>Strings, numbers and time of the host language\<close>

text \<open>
  A Go string is a sequence of bytes; it is modelled as \<^typ>\<open>string\<close>, one
  \<^typ>\<open>char\<close> per byte. \<open>len(s)\<close> is \<^term>\<open>length s\<close>. The integers of the
  program (\<open>int\<close>, \<open>int64\<close>) are modelled as \<^typ>\<open>int\<close>: no arithmetic of the
  modelled code comes near the 64-bit bounds except \<open>Time.Sub\<close>, whose saturation is
  written out.
\<close>

definition is_digit :: "char \<Rightarrow> bool" where
  \<comment> \<open>\<open>r >= '0' && r <= '9'\<close>\<close>
  "is_digit c = (48 \<le> (of_char c :: nat) \<and> (of_char c :: nat) \<le> 57)"

definition digit_char :: "nat \<Rightarrow> char" where
  \<comment> \<open>the decimal digit of a number below ten\<close>
  "digit_char d = ''0123456789'' ! d"

fun digits :: "nat \<Rightarrow> string" where
  "digits n = (if n < 10 then [digit_char n] else digits (n div 10) @ [digit_char (n mod 10)])"

declare digits.simps [simp del]

definition Sprintf_d :: "int \<Rightarrow> string" where
  \<comment> \<open>\<open>fmt.Sprintf("%d", i)\<close>: the decimal rendering of an integer\<close>
  "Sprintf_d i = (if i < 0 then CHR ''-'' # digits (nat (- i)) else digits (nat i))"

text \<open>
  \<open>strings.Split(s, sep)\<close> for a separator of one byte: the pieces of \<open>s\<close> between the
  separators, in order; a string without separator is its only piece.
\<close>

fun Split :: "string \<Rightarrow> char \<Rightarrow> string list" where
  "Split [] sep = [[]]"
| "Split (c # cs) sep =
     (if c = sep then [] # Split cs sep
      else (case Split cs sep of p # ps \<Rightarrow> (c # p) # ps | [] \<Rightarrow> [[c]]))"

text \<open>
  A \<open>time.Time\<close> is an instant in nanoseconds since the epoch, a \<open>time.Duration\<close> a
  number of nanoseconds (an \<open>int64\<close>). \<open>t.Sub(u)\<close> is the difference, saturated at the
  largest and smallest duration.
\<close>

type_synonym Time = int
type_synonym Duration = int

definition Second :: Duration where
  "Second = 1000000000"

definition maxDuration :: Duration where
  "maxDuration = 2 ^ 63 - 1"

definition minDuration :: Duration where
  "minDuration = - (2 ^ 63)"

definition Time_Sub :: "Time \<Rightarrow> Time \<Rightarrow> Duration" where
  "Time_Sub t u =
     (if t - u > maxDuration then maxDuration
      else if t - u < minDuration then minDuration
      else t - u)"

definition generateRequestID :: "Time \<Rightarrow> string" where
  \<comment> \<open>\<open>fmt.Sprintf("%d", time.Now().UnixNano())\<close>; the argument is the reading of the clock\<close>
  "generateRequestID now = Sprintf_d now"

section \<open>models.go and errors.go: the data model\<close>

text \<open>
  Records keep the field names of the structs. Where two structs share a field name the
  fields of the request and response structs carry a prefix (\<open>init_\<close>, \<open>verify_\<close>,
  \<open>pir_\<close>, \<open>err_\<close>, \<open>ve_\<close>); those of \<open>Transaction\<close> and \<open>Config\<close> are as in the
  source. A \<open>map[string]string\<close> that may be \<open>nil\<close> is an optional map, a pointer that
  may be \<open>nil\<close> an option.
\<close>

record Transaction =
  ID :: string
  Token :: string
  Amount :: int
  Status :: string
  Description :: string
  Metadata :: "(string \<rightharpoonup> string) option"
  TransactionID :: int
  CID :: string
  CardNumber :: string
  CardHash :: string
  CreatedAt :: Time
  UpdatedAt :: Time
  CompletedAt :: "Time option"

record PaymentInitRequest =
  pir_Amount :: int
  pir_CallbackURL :: string
  pir_Description :: string
  pir_Mobile :: string
  pir_FactorNumber :: string
  pir_ValidCardNumber :: string

record PaymentInitResponse =
  init_Status :: int
  init_Token :: string
  init_Message :: string
  init_Errors :: "(string \<rightharpoonup> string) option"

record PaymentVerifyRequest =
  pvr_Token :: string

record PaymentVerifyResponse =
  verify_Status :: int
  verify_Amount :: string
  verify_RealAmount :: int
  verify_TransID :: int
  verify_FactorNumber :: string
  verify_Mobile :: string
  verify_Description :: string
  verify_CardNumber :: string
  verify_PaymentDate :: string
  verify_CID :: string
  verify_Message :: string
  verify_Errors :: "(string \<rightharpoonup> string) option"

record APIError =
  err_Message :: string
  err_Code :: string
  err_Errors :: "(string \<rightharpoonup> string) option"

record ValidationError =
  ve_Field :: string
  ve_Message :: string

text \<open>
  The values of Go's \<open>error\<close> that the modelled code produces: a plain message
  (\<open>errors.New\<close>, \<open>fmt.Errorf\<close> without \<open>%w\<close>, and the errors of the standard library), a
  message wrapping another error (\<open>fmt.Errorf("...: %w", err)\<close>), a \<open>*APIError\<close> and a
  \<open>ValidationErrors\<close> list.
\<close>

datatype error =
    Err string
  | Wrapped string error
  | APIErr APIError
  | ValidationErrs "ValidationError list"

record Config =
  APIKey :: string
  BaseURL :: string
  SandboxMode :: bool
  Timeout :: int
  CallbackURL :: string
  MaxRetries :: int
  RetryWaitTime :: Duration
  EncryptionKey :: string
  IPAllowList :: "string list"

section \<open>storage.go: the in-memory store\<close>

text \<open>
  \<open>MemoryStorage\<close> is its map from token to transaction (the mutex has no counterpart in
  a sequential model). The methods take the store and return it updated; the
  \<open>*Transaction\<close> argument may be \<open>nil\<close>. The store keeps copies, so a stored value is the
  transaction itself.
\<close>

type_synonym MemoryStorage = "string \<rightharpoonup> Transaction"

definition NewMemoryStorage :: MemoryStorage where
  "NewMemoryStorage = Map.empty"

definition StoreTransaction :: "Transaction option \<Rightarrow> MemoryStorage \<Rightarrow> error option \<times> MemoryStorage" where
  "StoreTransaction transaction s =
     (case transaction of
        None \<Rightarrow> (Some (Err ''transaction cannot be nil''), s)
      | Some tx \<Rightarrow>
          if ID tx = [] then (Some (Err ''transaction ID cannot be empty''), s)
          else (None, s(Token tx \<mapsto> tx)))"

definition GetTransaction :: "string \<Rightarrow> MemoryStorage \<Rightarrow> error + Transaction" where
  "GetTransaction token s =
     (if token = [] then Inl (Err ''token cannot be empty'')
      else (case s token of
              None \<Rightarrow> Inl (Err (''transaction not found: '' @ token))
            | Some tx \<Rightarrow> Inr tx))"

text \<open>\<open>UpdateTransaction\<close> reads the clock once; the reading is its first argument.\<close>

definition UpdateTransaction ::
  "Time \<Rightarrow> Transaction option \<Rightarrow> MemoryStorage \<Rightarrow> error option \<times> MemoryStorage" where
  "UpdateTransaction now transaction s =
     (case transaction of
        None \<Rightarrow> (Some (Err ''transaction cannot be nil''), s)
      | Some tx \<Rightarrow>
          if ID tx = [] then (Some (Err ''transaction ID cannot be empty''), s)
          else (case s (Token tx) of
                  None \<Rightarrow> (Some (Err (''transaction not found: '' @ Token tx)), s)
                | Some _ \<Rightarrow> (None, s(Token tx \<mapsto> tx\<lparr>UpdatedAt := now\<rparr>))))"

text \<open>
  \<open>StorageInterface\<close>: what the client calls, over any store of type \<open>'s\<close>. An
  implementation returns either an error or a transaction from \<open>GetTransaction\<close>.
\<close>

record 's StorageInterface =
  if_StoreTransaction :: "Transaction option \<Rightarrow> 's \<Rightarrow> error option \<times> 's"
  if_GetTransaction :: "string \<Rightarrow> 's \<Rightarrow> (error + Transaction) \<times> 's"
  if_UpdateTransaction :: "Time \<Rightarrow> Transaction option \<Rightarrow> 's \<Rightarrow> error option \<times> 's"

definition memoryStorage :: "MemoryStorage StorageInterface" where
  "memoryStorage =
     \<lparr> if_StoreTransaction = StoreTransaction,
       if_GetTransaction = (\<lambda>token s. (GetTransaction token s, s)),
       if_UpdateTransaction = UpdateTransaction \<rparr>"

section \<open>crypto.go: card numbers\<close>

text \<open>
  \<open>sanitizeCardNumber\<close> ranges over the runes of its argument and keeps those between
  \<open>'0'\<close> and \<open>'9'\<close>. Every byte of a multi-byte UTF-8 sequence (and every invalid byte,
  read as U+FFFD) is at least 128 or decodes to a non-digit, so keeping the digit bytes
  gives the same string.
\<close>

definition sanitizeCardNumber :: "string \<Rightarrow> string" where
  "sanitizeCardNumber cardNumber = filter is_digit cardNumber"

text \<open>The loop \<open>for i := 0; i < n; i++ { masked += "*" }\<close>, run for \<open>n\<close> rounds.\<close>

primrec mask_loop :: "nat \<Rightarrow> string" where
  "mask_loop 0 = []"
| "mask_loop (Suc n) = mask_loop n @ ''*''"

definition MaskCardNumber :: "string \<Rightarrow> string" where
  "MaskCardNumber cardNumber =
     (let cleanCard = sanitizeCardNumber cardNumber in
      if length cleanCard < 4 then ''****''
      else mask_loop (length cleanCard - 4) @ drop (length cleanCard - 4) cleanCard)"

section \<open>validation.go\<close>

definition MinAmount :: int where
  "MinAmount = 10000"

definition MaxAmount :: int where
  "MaxAmount = 5000000000"

definition MaxDescriptionLength :: nat where
  "MaxDescriptionLength = 255"

definition cardNumberRegex :: "string \<Rightarrow> bool" where
  \<comment> \<open>\<open>^[0-9]{16}$\<close>\<close>
  "cardNumberRegex s = (length s = 16 \<and> list_all is_digit s)"

definition mobileRegex :: "string \<Rightarrow> bool" where
  \<comment> \<open>\<open>^09[0-9]{9}$\<close>\<close>
  "mobileRegex s = (length s = 11 \<and> take 2 s = ''09'' \<and> list_all is_digit (drop 2 s))"

text \<open>
  \<open>ValidatePaymentInitRequest\<close> appends one \<open>ValidationError\<close> per violated rule, in the
  order of the checks. Whether \<open>urlRegex\<close> matches the callback URL is the regular
  expression engine's verdict, the parameter \<open>urlRegex\<close>.
\<close>

definition ValidatePaymentInitRequest :: "(string \<Rightarrow> bool) \<Rightarrow> PaymentInitRequest \<Rightarrow> error option" where
  "ValidatePaymentInitRequest urlRegex req =
     (let errors =
        (if pir_Amount req < MinAmount
         then [\<lparr>ve_Field = ''amount'',
                ve_Message = ''amount must be at least '' @ Sprintf_d MinAmount @ '' Rials''\<rparr>]
         else []) @
        (if pir_Amount req > MaxAmount
         then [\<lparr>ve_Field = ''amount'',
                ve_Message = ''amount must be at most '' @ Sprintf_d MaxAmount @ '' Rials''\<rparr>]
         else []) @
        (if pir_CallbackURL req = []
         then [\<lparr>ve_Field = ''callback_url'', ve_Message = ''callback URL is required''\<rparr>]
         else if \<not> urlRegex (pir_CallbackURL req)
         then [\<lparr>ve_Field = ''callback_url'',
                ve_Message = ''callback URL must be a valid HTTP(S) URL''\<rparr>]
         else []) @
        (if length (pir_Description req) > MaxDescriptionLength
         then [\<lparr>ve_Field = ''description'',
                ve_Message = ''description must be at most '' @
                  Sprintf_d (int MaxDescriptionLength) @ '' characters''\<rparr>]
         else []) @
        (if pir_Mobile req \<noteq> [] \<and> \<not> mobileRegex (pir_Mobile req)
         then [\<lparr>ve_Field = ''mobile'',
                ve_Message = ''mobile must be a valid Iranian mobile number (e.g., 09123456789)''\<rparr>]
         else []) @
        (if pir_ValidCardNumber req \<noteq> [] \<and>
            \<not> cardNumberRegex (sanitizeCardNumber (pir_ValidCardNumber req))
         then [\<lparr>ve_Field = ''valid_card_number'',
                ve_Message = ''valid card number must be a 16-digit number''\<rparr>]
         else [])
      in if length errors > 0 then Some (ValidationErrs errors) else None)"

section \<open>client.go: the gateway client\<close>

text \<open>
  What the client takes from outside the repository is a parameter: the JSON encoder and
  decoders of the standard library, the construction of an HTTP request, and the HTTP
  client behind \<open>HTTPClientInterface\<close>, whose \<open>Do\<close> answers a request with an error or a
  response. A response is its status code and what \<open>io.ReadAll\<close> gives for its body.
\<close>

datatype JSON = JString string | JInt int

record HTTPRequest =
  req_Method :: string
  req_URL :: string
  req_Header :: "(string \<times> string) list"
  req_Body :: "string option"

record HTTPResponse =
  StatusCode :: int
  Body :: "error + string"

record Stdlib =
  json_Marshal :: "(string \<rightharpoonup> JSON) \<Rightarrow> error + string"
  http_NewRequest :: "string \<Rightarrow> string \<Rightarrow> error option"
  Do :: "HTTPRequest \<Rightarrow> error + HTTPResponse"
  unmarshal_APIError :: "string \<Rightarrow> error + APIError"
  unmarshal_PaymentInitResponse :: "string \<Rightarrow> error + PaymentInitResponse"
  unmarshal_PaymentVerifyResponse :: "string \<Rightarrow> error + PaymentVerifyResponse"

text \<open>
  The state a call of the client works on: the store behind \<open>StorageInterface\<close>, the
  requests handed to \<open>Do\<close> so far, and the lines given to the logger (level and message).
\<close>

record 's World =
  store :: 's
  sent :: "HTTPRequest list"
  logged :: "(string \<times> string) list"

definition logger :: "string \<Rightarrow> string \<Rightarrow> 's World \<Rightarrow> 's World" where
  "logger level message w = w\<lparr>logged := logged w @ [(level, message)]\<rparr>"

text \<open>
  \<open>makeRequest\<close> returns the body (\<open>nil\<close> is \<open>None\<close>), the status code and the error. Its
  \<open>now\<close> is the clock reading of \<open>generateRequestID\<close>. Two of its blocks have a name
  here: \<open>marshal_body\<close>, the encoding of a body that is not \<open>nil\<close>, and \<open>api_request\<close>,
  the request with the four headers set.
\<close>

definition marshal_body :: "Stdlib \<Rightarrow> (string \<rightharpoonup> JSON) option \<Rightarrow> error + string option" where
  "marshal_body env body =
     (case body of
        None \<Rightarrow> Inr None
      | Some b \<Rightarrow> (case json_Marshal env b of Inl e \<Rightarrow> Inl e | Inr jsonData \<Rightarrow> Inr (Some jsonData)))"

definition api_request :: "Config \<Rightarrow> Time \<Rightarrow> string \<Rightarrow> string \<Rightarrow> string option \<Rightarrow> HTTPRequest" where
  "api_request cfg now method url bodyReader =
     \<lparr>req_Method = method, req_URL = url,
      req_Header = [(''Content-Type'', ''application/json''),
                    (''Accept'', ''application/json''),
                    (''Authorization'', ''Bearer '' @ APIKey cfg),
                    (''X-Request-ID'', generateRequestID now)],
      req_Body = bodyReader\<rparr>"

definition makeRequest ::
  "Stdlib \<Rightarrow> Config \<Rightarrow> Time \<Rightarrow> string \<Rightarrow> string \<Rightarrow> (string \<rightharpoonup> JSON) option \<Rightarrow> 's World \<Rightarrow>
   (string option \<times> int \<times> error option) \<times> 's World" where
  "makeRequest env cfg now method endpoint body w =
     (let url = BaseURL cfg @ endpoint in
      case marshal_body env body of
        Inl e \<Rightarrow> ((None, 0, Some (Wrapped ''failed to marshal request body: '' e)), w)
      | Inr bodyReader \<Rightarrow>
          (case http_NewRequest env method url of
             Some e \<Rightarrow> ((None, 0, Some (Wrapped ''failed to create request: '' e)), w)
           | None \<Rightarrow>
               (let req = api_request cfg now method url bodyReader;
                    w1 = logger ''DEBUG'' ''Making API request'' w;
                    w2 = w1\<lparr>sent := sent w1 @ [req]\<rparr>
                in case Do env req of
                     Inl respErr \<Rightarrow>
                       ((None, 0, Some (Wrapped ''api request failed: '' respErr)),
                        logger ''ERROR'' ''API request failed'' w2)
                   | Inr resp \<Rightarrow>
                       (case Body resp of
                          Inl e \<Rightarrow>
                            ((None, StatusCode resp,
                              Some (Wrapped ''failed to read response body: '' e)), w2)
                        | Inr respBody \<Rightarrow>
                            (let w3 = logger ''DEBUG'' ''Received API response'' w2 in
                             if StatusCode resp < 200 \<or> StatusCode resp \<ge> 300 then
                               (let apiErr =
                                  (case unmarshal_APIError env respBody of
                                     Inl e \<Rightarrow> \<lparr>err_Message = respBody,
                                               err_Code = Sprintf_d (StatusCode resp),
                                               err_Errors = None\<rparr>
                                   | Inr decoded \<Rightarrow> decoded)
                                in ((None, StatusCode resp, Some (APIErr apiErr)), w3))
                             else ((Some respBody, StatusCode resp, None), w3))))))"

text \<open>
  The request bodies that \<open>InitiatePayment\<close> and \<open>VerifyPayment\<close> prepare. Ranging over a
  \<open>nil\<close> metadata map adds nothing; a metadata key replaces an entry of the same name.
\<close>

definition init_apiReq :: "Config \<Rightarrow> PaymentInitRequest \<Rightarrow> (string \<rightharpoonup> string) option \<Rightarrow> (string \<rightharpoonup> JSON)" where
  "init_apiReq cfg req metadata =
     (let apiReq0 = [''api_key'' \<mapsto> JString (APIKey cfg),
                     ''amount'' \<mapsto> JInt (pir_Amount req),
                     ''callback_url'' \<mapsto> JString (pir_CallbackURL req)];
          apiReq1 = (if pir_Description req \<noteq> []
                     then apiReq0(''description'' \<mapsto> JString (pir_Description req))
                     else apiReq0)
      in case metadata of
           None \<Rightarrow> apiReq1
         | Some md \<Rightarrow> apiReq1 ++ (\<lambda>key. map_option JString (md key)))"

definition verify_apiReq :: "Config \<Rightarrow> PaymentVerifyRequest \<Rightarrow> (string \<rightharpoonup> JSON)" where
  "verify_apiReq cfg req =
     [''api_key'' \<mapsto> JString (APIKey cfg), ''token'' \<mapsto> JString (pvr_Token req)]"

definition init_request :: "Config \<Rightarrow> int \<Rightarrow> string \<Rightarrow> PaymentInitRequest" where
  "init_request cfg amount description =
     \<lparr>pir_Amount = amount, pir_CallbackURL = CallbackURL cfg, pir_Description = description,
      pir_Mobile = [], pir_FactorNumber = [], pir_ValidCardNumber = []\<rparr>"

text \<open>
  \<open>InitiatePayment\<close> and \<open>VerifyPayment\<close> read the clock several times; \<open>clock k\<close> is the
  \<open>k\<close>-th reading of the call, in the order of the source. They return the response
  (\<open>nil\<close> is \<open>None\<close>) and the error.
\<close>

definition InitiatePayment ::
  "Stdlib \<Rightarrow> 's StorageInterface \<Rightarrow> Config \<Rightarrow> (nat \<Rightarrow> Time) \<Rightarrow> int \<Rightarrow> string \<Rightarrow>
   (string \<rightharpoonup> string) option \<Rightarrow> 's World \<Rightarrow>
   (PaymentInitResponse option \<times> error option) \<times> 's World" where
  "InitiatePayment env storage cfg clock amount description metadata w =
     (let req = init_request cfg amount description;
          apiReq = init_apiReq cfg req metadata
      in case makeRequest env cfg (clock 0) ''POST'' ''/api/v4/send'' (Some apiReq) w of
           ((respBody, code, Some err), w1) \<Rightarrow>
             ((None, Some (Wrapped ''failed to initialize payment: '' err)), w1)
         | ((respBody, code, None), w1) \<Rightarrow>
             (case unmarshal_PaymentInitResponse env (case respBody of None \<Rightarrow> [] | Some b \<Rightarrow> b) of
                Inl err \<Rightarrow> ((None, Some (Wrapped ''failed to parse API response: '' err)), w1)
              | Inr apiResp \<Rightarrow>
                  if init_Status apiResp \<noteq> 1 then
                    ((Some apiResp,
                      Some (Err (''payment initialization failed: '' @ init_Message apiResp))), w1)
                  else
                    (let transaction =
                           \<lparr>ID = generateRequestID (clock 1), Token = init_Token apiResp,
                            Amount = pir_Amount req, Status = ''INIT'',
                            Description = pir_Description req, Metadata = metadata,
                            TransactionID = 0, CID = [], CardNumber = [], CardHash = [],
                            CreatedAt = clock 2, UpdatedAt = clock 3, CompletedAt = None\<rparr>
                     in case if_StoreTransaction storage (Some transaction) (store w1) of
                          (Some err, s') \<Rightarrow>
                            ((Some apiResp, None),
                             logger ''ERROR'' ''Failed to store transaction'' (w1\<lparr>store := s'\<rparr>))
                        | (None, s') \<Rightarrow> ((Some apiResp, None), w1\<lparr>store := s'\<rparr>))))"

definition VerifyPayment ::
  "Stdlib \<Rightarrow> 's StorageInterface \<Rightarrow> Config \<Rightarrow> (nat \<Rightarrow> Time) \<Rightarrow> string \<Rightarrow> 's World \<Rightarrow>
   (PaymentVerifyResponse option \<times> error option) \<times> 's World" where
  "VerifyPayment env storage cfg clock token w =
     (let req = \<lparr>pvr_Token = token\<rparr>;
          apiReq = verify_apiReq cfg req
      in case makeRequest env cfg (clock 0) ''POST'' ''/api/v4/verify'' (Some apiReq) w of
           ((respBody, code, Some err), w1) \<Rightarrow>
             ((None, Some (Wrapped ''failed to verify payment: '' err)), w1)
         | ((respBody, code, None), w1) \<Rightarrow>
             (case unmarshal_PaymentVerifyResponse env (case respBody of None \<Rightarrow> [] | Some b \<Rightarrow> b) of
                Inl err \<Rightarrow> ((None, Some (Wrapped ''failed to parse API response: '' err)), w1)
              | Inr apiResp \<Rightarrow>
                  if verify_Status apiResp \<noteq> 1 then
                    ((Some apiResp,
                      Some (Err (''payment verification failed: '' @ verify_Message apiResp))), w1)
                  else
                    (case if_GetTransaction storage token (store w1) of
                       (Inr transaction, s1) \<Rightarrow>
                         (let transaction' =
                                transaction\<lparr>Status := ''PAID'',
                                            TransactionID := verify_TransID apiResp,
                                            CardNumber := verify_CardNumber apiResp,
                                            CID := verify_CID apiResp,
                                            UpdatedAt := clock 1,
                                            CompletedAt := Some (clock 2)\<rparr>
                          in case if_UpdateTransaction storage (clock 3) (Some transaction') s1 of
                               (Some err, s2) \<Rightarrow>
                                 ((Some apiResp, None),
                                  logger ''ERROR'' ''Failed to update transaction'' (w1\<lparr>store := s2\<rparr>))
                             | (None, s2) \<Rightarrow> ((Some apiResp, None), w1\<lparr>store := s2\<rparr>))
                     | (Inl err, s1) \<Rightarrow>
                         ((Some apiResp, None),
                          logger ''WARN'' ''Transaction not found in storage'' (w1\<lparr>store := s1\<rparr>)))))"

text \<open>
  A fake gateway and standard library for running the client on concrete inputs: every
  request is answered with status 200, and the body decodes to a successful response
  carrying the token \<open>tok\<close>.
\<close>

definition fake_init_response :: "string \<Rightarrow> PaymentInitResponse" where
  "fake_init_response tok =
     \<lparr>init_Status = 1, init_Token = tok, init_Message = [], init_Errors = None\<rparr>"

definition fake_verify_response :: PaymentVerifyResponse where
  "fake_verify_response =
     \<lparr>verify_Status = 1, verify_Amount = ''20000'', verify_RealAmount = 19500,
      verify_TransID = 159178352177, verify_FactorNumber = [], verify_Mobile = [],
      verify_Description = [], verify_CardNumber = ''603799******7999'',
      verify_PaymentDate = ''2020-06-10 14:36:30'', verify_CID = ''ECDA7B'',
      verify_Message = ''ok'', verify_Errors = None\<rparr>"

definition fake_env :: "string \<Rightarrow> Stdlib" where
  "fake_env tok =
     \<lparr>json_Marshal = (\<lambda>m. Inr ''{}''),
      http_NewRequest = (\<lambda>method url. None),
      Do = (\<lambda>req. Inr \<lparr>StatusCode = 200, Body = Inr ''{}''\<rparr>),
      unmarshal_APIError = (\<lambda>b. Inl (Err ''unexpected end of JSON input'')),
      unmarshal_PaymentInitResponse = (\<lambda>b. Inr (fake_init_response tok)),
      unmarshal_PaymentVerifyResponse = (\<lambda>b. Inr fake_verify_response)\<rparr>"

definition test_config :: Config where
  "test_config =
     \<lparr>APIKey = ''api_key'', BaseURL = ''https://ipg.vandar.io'', SandboxMode = True,
      Timeout = 30, CallbackURL = ''https://test.com/callback'', MaxRetries = 0,
      RetryWaitTime = 0, EncryptionKey = [], IPAllowList = []\<rparr>"

definition new_world :: "'s \<Rightarrow> 's World" where
  "new_world s = \<lparr>store = s, sent = [], logged = []\<rparr>"

section \<open>middleware.go\<close>

text \<open>
  An inbound request is its method, path, headers (under their canonical names; \<open>Get\<close> of
  an absent header is the empty string) and remote address. A \<open>ResponseWriter\<close> is what
  has been written to it: the headers, the status code once written, and the body.
  \<open>http.Error\<close> drops \<open>Content-Length\<close>, sets its two headers, writes the status code and
  the message followed by a newline; a status code written earlier stays.
\<close>

record Request =
  Method :: string
  Path :: string
  Header :: "string \<rightharpoonup> string"
  RemoteAddr :: string

record ResponseWriter =
  rw_Header :: "string \<rightharpoonup> string"
  rw_status :: "int option"
  rw_body :: string

definition Header_Get :: "Request \<Rightarrow> string \<Rightarrow> string" where
  "Header_Get r key = (case Header r key of None \<Rightarrow> [] | Some v \<Rightarrow> v)"

definition WriteHeader :: "int \<Rightarrow> ResponseWriter \<Rightarrow> ResponseWriter" where
  "WriteHeader code w = (case rw_status w of None \<Rightarrow> w\<lparr>rw_status := Some code\<rparr> | Some c \<Rightarrow> w)"

definition Write :: "string \<Rightarrow> ResponseWriter \<Rightarrow> ResponseWriter" where
  "Write data w = (let w' = WriteHeader 200 w in w'\<lparr>rw_body := rw_body w' @ data\<rparr>)"

definition http_Error :: "ResponseWriter \<Rightarrow> string \<Rightarrow> int \<Rightarrow> ResponseWriter" where
  "http_Error w msg code =
     Write (msg @ [CHR 0x0A])
       (WriteHeader code
          (w\<lparr>rw_Header := ((rw_Header w)(''Content-Length'' := None))
                (''Content-Type'' \<mapsto> ''text/plain; charset=utf-8'',
                 ''X-Content-Type-Options'' \<mapsto> ''nosniff'')\<rparr>))"

definition StatusUnauthorized :: int where
  "StatusUnauthorized = 401"

definition StatusTooManyRequests :: int where
  "StatusTooManyRequests = 429"

text \<open>
  A handler works on the response writer and on the rest of the program's state \<open>'w\<close>. A
  middleware that does not call \<open>next\<close> returns that state as it got it.
\<close>

type_synonym 'w HandlerFunc = "ResponseWriter \<Rightarrow> Request \<Rightarrow> 'w \<Rightarrow> ResponseWriter \<times> 'w"

definition Chain :: "'h \<Rightarrow> ('h \<Rightarrow> 'h) list \<Rightarrow> 'h" where
  \<comment> \<open>\<open>for i := len(middlewares) - 1; i >= 0; i-- { handler = middlewares[i](handler) }\<close>\<close>
  "Chain handler middlewares = foldr (\<lambda>m h. m h) middlewares handler"

text \<open>
  \<open>getClientIP\<close>: the first entry of \<open>X-Forwarded-For\<close>, else \<open>X-Real-IP\<close>, else the host
  of the remote address. \<open>strings.TrimSpace\<close> and \<open>net.SplitHostPort\<close> (the host, or an
  error) are parameters.
\<close>

record NetLib =
  strings_TrimSpace :: "string \<Rightarrow> string"
  net_SplitHostPort :: "string \<Rightarrow> error + string"

definition getClientIP :: "NetLib \<Rightarrow> Request \<Rightarrow> string" where
  "getClientIP lib r =
     (let forwardedFor = Header_Get r ''X-Forwarded-For'' in
      if forwardedFor \<noteq> [] then
        (case Split forwardedFor (CHR '','') of
           ip # ips \<Rightarrow> strings_TrimSpace lib ip
         | [] \<Rightarrow> strings_TrimSpace lib [])
      else
        (let realIP = Header_Get r ''X-Real-IP'' in
         if realIP \<noteq> [] then realIP
         else (case net_SplitHostPort lib (RemoteAddr r) of
                 Inl err \<Rightarrow> RemoteAddr r
               | Inr ip \<Rightarrow> ip)))"

text \<open>
  \<open>RateLimitMiddleware\<close> keeps a map from client IP to a counter and the time the client
  was last seen. The map lives in the closure; here it is passed in and returned. \<open>now\<close>
  is the reading of the clock.
\<close>

record client =
  count :: int
  lastSeen :: Time

definition RateLimitMiddleware ::
  "NetLib \<Rightarrow> int \<Rightarrow> Duration \<Rightarrow> 'w HandlerFunc \<Rightarrow> Time \<Rightarrow> (string \<rightharpoonup> client) \<Rightarrow>
   ResponseWriter \<Rightarrow> Request \<Rightarrow> 'w \<Rightarrow> (string \<rightharpoonup> client) \<times> ResponseWriter \<times> 'w" where
  "RateLimitMiddleware lib limit window next now clients w r \<sigma> =
     (let ip = getClientIP lib r;
          fresh = (clients(ip \<mapsto> \<lparr>count = 1, lastSeen = now\<rparr>), next w r \<sigma>)
      in case clients ip of
           None \<Rightarrow> fresh
         | Some c \<Rightarrow>
             if Time_Sub now (lastSeen c) > window then fresh
             else
               (let c' = c\<lparr>lastSeen := now, count := count c + 1\<rparr>;
                    clients' = clients(ip \<mapsto> c')
                in if count c' > limit
                   then (clients', http_Error w ''Rate limit exceeded'' StatusTooManyRequests, \<sigma>)
                   else (clients', next w r \<sigma>)))"

definition AuthMiddleware :: "Config \<Rightarrow> 'w HandlerFunc \<Rightarrow> 'w HandlerFunc" where
  "AuthMiddleware config next w r \<sigma> =
     (let authHeader = Header_Get r ''Authorization'' in
      if authHeader = [] then (http_Error w ''Unauthorized'' StatusUnauthorized, \<sigma>)
      else
        (case Split authHeader (CHR '' '') of
           [scheme, token] \<Rightarrow>
             if scheme \<noteq> ''Bearer''
             then (http_Error w ''Invalid authorization format'' StatusUnauthorized, \<sigma>)
             else if token \<noteq> APIKey config
             then (http_Error w ''Invalid API key'' StatusUnauthorized, \<sigma>)
             else next w r \<sigma>
         | parts \<Rightarrow> (http_Error w ''Invalid authorization format'' StatusUnauthorized, \<sigma>)))"

text \<open>
  Serving a sequence of requests, each with the clock reading at its arrival and a response
  writer of its own: through the rate limiter, and as a list of verdicts prescribes, where a
  request is handed to the bare handler when its verdict is \<open>True\<close> and answered with
  status 429, the state untouched, otherwise.
\<close>

fun serve_limited ::
  "NetLib \<Rightarrow> int \<Rightarrow> Duration \<Rightarrow> 'w HandlerFunc \<Rightarrow> (Time \<times> ResponseWriter \<times> Request) list \<Rightarrow>
   (string \<rightharpoonup> client) \<Rightarrow> 'w \<Rightarrow> (string \<rightharpoonup> client) \<times> ResponseWriter list \<times> 'w" where
  "serve_limited lib limit window next [] clients \<sigma> = (clients, [], \<sigma>)"
| "serve_limited lib limit window next ((now, w, r) # rest) clients \<sigma> =
     (case RateLimitMiddleware lib limit window next now clients w r \<sigma> of
        (clients', w', \<sigma>') \<Rightarrow>
          (case serve_limited lib limit window next rest clients' \<sigma>' of
             (clients'', ws, \<sigma>'') \<Rightarrow> (clients'', w' # ws, \<sigma>'')))"

fun serve_as ::
  "'w HandlerFunc \<Rightarrow> (bool \<times> Time \<times> ResponseWriter \<times> Request) list \<Rightarrow> 'w \<Rightarrow> ResponseWriter list \<times> 'w" where
  "serve_as next [] \<sigma> = ([], \<sigma>)"
| "serve_as next ((served, now, w, r) # rest) \<sigma> =
     (case (if served then next w r \<sigma>
            else (http_Error w ''Rate limit exceeded'' StatusTooManyRequests, \<sigma>)) of
        (w', \<sigma>') \<Rightarrow> (case serve_as next rest \<sigma>' of (ws, \<sigma>'') \<Rightarrow> (w' # ws, \<sigma>'')))"

definition from_ip :: "NetLib \<Rightarrow> string \<Rightarrow> Time \<times> ResponseWriter \<times> Request \<Rightarrow> bool" where
  \<comment> \<open>the request of a trace entry resolves to the client IP given\<close>
  "from_ip lib ip q = (getClientIP lib (snd (snd q)) = ip)"

text \<open>A handler for running the middleware on concrete inputs: it answers \<open>ok\<close> and counts its calls.\<close>

definition counting_handler :: "nat HandlerFunc" where
  "counting_handler w r n = (Write ''ok'' w, Suc n)"

definition new_writer :: ResponseWriter where
  "new_writer = \<lparr>rw_Header = Map.empty, rw_status = None, rw_body = []\<rparr>"

definition test_lib :: NetLib where
  "test_lib = \<lparr>strings_TrimSpace = (\<lambda>s. s), net_SplitHostPort = (\<lambda>addr. Inr (takeWhile (\<lambda>c. c \<noteq> CHR '':'') addr))\<rparr>"

definition request_from :: "string \<Rightarrow> (string \<rightharpoonup> string) \<Rightarrow> Request" where
  "request_from addr hdr = \<lparr>Method = ''POST'', Path = ''/payments/init'', Header = hdr, RemoteAddr = addr\<rparr>"

section \<open>handlers.go: the routes\<close>

text \<open>
  \<open>RegisterRoutes\<close> registers five routes, each a handler under a chain of middleware
  calls. The calls are kept with their arguments as written in the source; the untyped
  constant \<open>60\<close> given for the \<open>time.Duration\<close> parameter is the duration \<open>60\<close>.
\<close>

datatype MiddlewareCall =
    RequestIDMiddleware_call
  | LoggingMiddleware_call
  | SecurityHeadersMiddleware_call
  | RateLimitMiddleware_call int Duration
  | AuthMiddleware_call
  | IPFilterMiddleware_call

record Route =
  route_method :: string
  route_path :: string
  route_handler :: string
  route_chain :: "MiddlewareCall list"

definition RegisterRoutes :: "Route list" where
  "RegisterRoutes =
     [\<lparr>route_method = ''POST'', route_path = ''/payments/init'', route_handler = ''handlePaymentInit'',
       route_chain = [RequestIDMiddleware_call, LoggingMiddleware_call, SecurityHeadersMiddleware_call,
                      RateLimitMiddleware_call 10 60, AuthMiddleware_call]\<rparr>,
      \<lparr>route_method = ''POST'', route_path = ''/payments/verify'', route_handler = ''handlePaymentVerify'',
       route_chain = [RequestIDMiddleware_call, LoggingMiddleware_call, SecurityHeadersMiddleware_call,
                      RateLimitMiddleware_call 10 60, AuthMiddleware_call]\<rparr>,
      \<lparr>route_method = ''GET'', route_path = ''/payments/status'', route_handler = ''handlePaymentStatus'',
       route_chain = [RequestIDMiddleware_call, LoggingMiddleware_call, SecurityHeadersMiddleware_call,
                      RateLimitMiddleware_call 20 60, AuthMiddleware_call]\<rparr>,
      \<lparr>route_method = ''POST'', route_path = ''/payments/refund'', route_handler = ''handleRefund'',
       route_chain = [RequestIDMiddleware_call, LoggingMiddleware_call, SecurityHeadersMiddleware_call,
                      RateLimitMiddleware_call 5 60, AuthMiddleware_call]\<rparr>,
      \<lparr>route_method = ''POST'', route_path = ''/payments/callback'', route_handler = ''handleCallback'',
       route_chain = [RequestIDMiddleware_call, LoggingMiddleware_call, SecurityHeadersMiddleware_call,
                      IPFilterMiddleware_call]\<rparr>]"

fun rate_limit_args :: "MiddlewareCall list \<Rightarrow> (int \<times> Duration) option" where
  "rate_limit_args [] = None"
| "rate_limit_args (RateLimitMiddleware_call limit window # calls) = Some (limit, window)"
| "rate_limit_args (call # calls) = rate_limit_args calls"

definition route_rate_limit :: "string \<Rightarrow> (int \<times> Duration) option" where
  "route_rate_limit path =
     (case filter (\<lambda>route. route_path route = path) RegisterRoutes of
        [] \<Rightarrow> None
      | route # routes \<Rightarrow> rate_limit_args (route_chain route))"

section \<open>Fixtures\<close>

definition test_clock :: "nat \<Rightarrow> Time" where
  "test_clock k = 1700000000000000000 + int k"

definition init_tx :: "string \<Rightarrow> Transaction" where
  \<comment> \<open>a transaction as \<open>InitiatePayment\<close> creates it, for the token given\<close>
  "init_tx tok =
     \<lparr>ID = ''1'', Token = tok, Amount = 20000, Status = ''INIT'', Description = [],
      Metadata = None, TransactionID = 0, CID = [], CardNumber = [], CardHash = [],
      CreatedAt = 0, UpdatedAt = 0, CompletedAt = None\<rparr>"

definition failing_storage :: "MemoryStorage StorageInterface" where
  \<comment> \<open>a store whose every operation fails\<close>
  "failing_storage =
     \<lparr> if_StoreTransaction = (\<lambda>transaction s. (Some (Err ''storage unavailable''), s)),
       if_GetTransaction = (\<lambda>token s. (Inl (Err ''storage unavailable''), s)),
       if_UpdateTransaction = (\<lambda>now transaction s. (Some (Err ''storage unavailable''), s)) \<rparr>"

definition test_request :: Request where
  "test_request = request_from ''10.0.0.1:5000'' Map.empty"

definition other_request :: Request where
  "other_request = request_from ''10.0.0.2:5000'' Map.empty"

definition bearer_request :: "string \<Rightarrow> Request" where
  "bearer_request authHeader = request_from ''10.0.0.1:5000'' [''Authorization'' \<mapsto> authHeader]"

text \<open>
  The stores that the program can build: the new store, and what a successful
  \<open>StoreTransaction\<close> or \<open>UpdateTransaction\<close> makes of such a store.
\<close>

inductive reachable :: "MemoryStorage \<Rightarrow> bool" where
  reachable_new: "reachable NewMemoryStorage"
| reachable_store: "reachable s \<Longrightarrow> StoreTransaction (Some tx) s = (None, s') \<Longrightarrow> reachable s'"
| reachable_update: "reachable s \<Longrightarrow> UpdateTransaction now (Some tx) s = (None, s') \<Longrightarrow> reachable s'"

definition store_inv :: "MemoryStorage \<Rightarrow> bool" where
  "store_inv s = (\<forall>k tx. s k = Some tx \<longrightarrow> Token tx = k \<and> ID tx \<noteq> [])"

section \<open>Properties\<close>

subsection \<open>Card masking\<close>

lemma mask_loop_replicate: "mask_loop n = replicate n (CHR ''*'')"
  by (induction n) (simp_all add: replicate_append_same)

lemma sanitizeCardNumber_digits: "c \<in> set (sanitizeCardNumber s) \<Longrightarrow> is_digit c"
  by (simp add: sanitizeCardNumber_def)

lemma star_not_digit: "\<not> is_digit (CHR ''*'')"
  by (simp add: is_digit_def)

text \<open>
  Claim C10. When the digits of the input are exactly four, \<open>MaskCardNumber\<close> returns
  those four digits and no mask character at all; when they are fewer than four, it
  returns the fixed string \<open>****\<close>, whatever the input was.
\<close>

theorem MaskCardNumber_four_or_fewer_digits:
  "(length (sanitizeCardNumber s) = 4 \<longrightarrow>
      MaskCardNumber s = sanitizeCardNumber s \<and> CHR ''*'' \<notin> set (MaskCardNumber s)) \<and>
   (length (sanitizeCardNumber s) < 4 \<longrightarrow> MaskCardNumber s = ''****'')"
proof (intro conjI impI)
  assume four: "length (sanitizeCardNumber s) = 4"
  then show eq: "MaskCardNumber s = sanitizeCardNumber s"
    by (simp add: MaskCardNumber_def Let_def)
  show "CHR ''*'' \<notin> set (MaskCardNumber s)"
    using sanitizeCardNumber_digits [of "CHR ''*''" s] star_not_digit
    unfolding eq by blast
next
  assume "length (sanitizeCardNumber s) < 4"
  then show "MaskCardNumber s = ''****''"
    by (simp add: MaskCardNumber_def Let_def)
qed

theorem MaskCardNumber_four_or_fewer_digits_witness:
  "MaskCardNumber ''12-34'' = ''1234'' \<and> MaskCardNumber ''card 12x3 of five'' = ''****''"
  using MaskCardNumber_four_or_fewer_digits [of "''12-34''"]
    MaskCardNumber_four_or_fewer_digits [of "''card 12x3 of five''"]
  by (simp add: sanitizeCardNumber_def is_digit_def)

subsection \<open>Decimal rendering\<close>

lemma digits_nonempty: "digits n \<noteq> []"
  by (subst digits.simps) simp

lemma Sprintf_d_nonempty: "Sprintf_d i \<noteq> []"
  by (simp add: Sprintf_d_def digits_nonempty)

lemma generateRequestID_nonempty: "generateRequestID now \<noteq> []"
  by (simp add: generateRequestID_def Sprintf_d_nonempty)

subsection \<open>The store\<close>

lemma store_inv_new: "store_inv NewMemoryStorage"
  by (simp add: store_inv_def NewMemoryStorage_def)

lemma store_inv_StoreTransaction:
  assumes "store_inv s" and "StoreTransaction (Some tx) s = (None, s')"
  shows "store_inv s'"
  using assms by (auto simp: store_inv_def StoreTransaction_def split: if_splits)

lemma store_inv_UpdateTransaction:
  assumes "store_inv s" and "UpdateTransaction now (Some tx) s = (None, s')"
  shows "store_inv s'"
  using assms by (auto simp: store_inv_def UpdateTransaction_def split: if_splits option.splits)

lemma reachable_store_inv: "reachable s \<Longrightarrow> store_inv s"
  by (induction rule: reachable.induct)
    (auto intro: store_inv_new store_inv_StoreTransaction store_inv_UpdateTransaction)

lemma reachable_ID_nonempty: "reachable s \<Longrightarrow> s k = Some tx \<Longrightarrow> ID tx \<noteq> []"
  using reachable_store_inv [of s] by (simp add: store_inv_def)

text \<open>
  Claim C5. The store checks the identifier of a transaction and never its token: a
  transaction with identifier \<open>1\<close> and an empty token is accepted by \<open>StoreTransaction\<close> on
  the new store, is kept under the empty key, is then accepted by \<open>UpdateTransaction\<close>
  too, and \<open>GetTransaction\<close> refuses to look the empty token up.
\<close>

theorem StoreTransaction_accepts_empty_token:
  "Token (init_tx []) = [] \<and>
   StoreTransaction (Some (init_tx [])) NewMemoryStorage = (None, [[] \<mapsto> init_tx []]) \<and>
   fst (UpdateTransaction 7 (Some (init_tx [])) [[] \<mapsto> init_tx []]) = None \<and>
   GetTransaction [] [[] \<mapsto> init_tx []] = Inl (Err ''token cannot be empty'')"
  by (simp add: init_tx_def StoreTransaction_def UpdateTransaction_def GetTransaction_def
      NewMemoryStorage_def)

subsection \<open>The gateway client: requests\<close>

lemma makeRequest_store: "store (snd (makeRequest env cfg now method endpoint body w)) = store w"
  by (simp add: makeRequest_def Let_def logger_def split: sum.splits option.splits)

lemma makeRequest_sent:
  assumes "marshal_body env body = Inr bodyReader"
    and "http_NewRequest env method (BaseURL cfg @ endpoint) = None"
  shows "sent (snd (makeRequest env cfg now method endpoint body w)) =
         sent w @ [api_request cfg now method (BaseURL cfg @ endpoint) bodyReader]"
  using assms by (simp add: makeRequest_def Let_def logger_def split: sum.splits option.splits)

lemma InitiatePayment_sent:
  "sent (snd (InitiatePayment env storage cfg clock amount description metadata w)) =
   sent (snd (makeRequest env cfg (clock 0) ''POST'' ''/api/v4/send''
          (Some (init_apiReq cfg (init_request cfg amount description) metadata)) w))"
  by (simp add: InitiatePayment_def Let_def logger_def split: prod.splits sum.splits option.splits)

text \<open>
  Whatever the amount, \<open>InitiatePayment\<close> hands one request to \<open>Do\<close> as soon as the body
  can be encoded and the request built: no bound on the amount is consulted.
\<close>

lemma InitiatePayment_sends_whatever_the_amount:
  assumes "marshal_body env (Some (init_apiReq cfg (init_request cfg amount description) metadata)) = Inr bodyReader"
    and "http_NewRequest env ''POST'' (BaseURL cfg @ ''/api/v4/send'') = None"
  shows "sent (snd (InitiatePayment env storage cfg clock amount description metadata w)) =
         sent w @ [api_request cfg (clock 0) ''POST'' (BaseURL cfg @ ''/api/v4/send'') bodyReader]"
  unfolding InitiatePayment_sent using assms by (rule makeRequest_sent)

text \<open>
  Claim C1. \<open>InitiatePayment\<close> with the amount 5, below \<open>MinAmount\<close>, against the fake
  gateway: the call returns the gateway's successful response with no error, and one
  request has been handed to \<open>Do\<close>. \<open>ValidatePaymentInitRequest\<close>, which the handler of
  \<open>/payments/init\<close> calls before its request, reports the field \<open>amount\<close> for the same
  request; \<open>InitiatePayment\<close> does not call it.
\<close>

theorem InitiatePayment_below_minimum_reaches_gateway:
  "fst (InitiatePayment (fake_env ''tok'') memoryStorage test_config test_clock 5 ''tiny'' None
          (new_world NewMemoryStorage)) = (Some (fake_init_response ''tok''), None) \<and>
   length (sent (snd (InitiatePayment (fake_env ''tok'') memoryStorage test_config test_clock 5
          ''tiny'' None (new_world NewMemoryStorage)))) = 1 \<and>
   (\<exists>m. ValidatePaymentInitRequest (\<lambda>url. True) (init_request test_config 5 ''tiny'') =
          Some (ValidationErrs [\<lparr>ve_Field = ''amount'', ve_Message = m\<rparr>]))"
  by (simp add: InitiatePayment_def makeRequest_def marshal_body_def fake_env_def test_config_def
      new_world_def memoryStorage_def StoreTransaction_def logger_def Let_def
      generateRequestID_nonempty fake_init_response_def ValidatePaymentInitRequest_def
      init_request_def MinAmount_def MaxAmount_def MaxDescriptionLength_def)

text \<open>
  Claim C9. Once the request has been built and \<open>Do\<close> has answered with a response whose
  status code is below 200 or at least 300, \<open>makeRequest\<close> returns no body, the status
  code and an error. When the body of the response could be read, the error is the
  \<open>APIError\<close> decoded from it if it decodes, and otherwise the \<open>APIError\<close> whose message
  is the body as received and whose code is the status code in decimal.
\<close>

theorem makeRequest_non_2xx:
  assumes "marshal_body env body = Inr bodyReader"
    and "http_NewRequest env method (BaseURL cfg @ endpoint) = None"
    and "Do env (api_request cfg now method (BaseURL cfg @ endpoint) bodyReader) = Inr resp"
    and "StatusCode resp < 200 \<or> 300 \<le> StatusCode resp"
  shows "(\<exists>e. fst (makeRequest env cfg now method endpoint body w) = (None, StatusCode resp, Some e)) \<and>
     (\<forall>respBody decoded. Body resp = Inr respBody \<longrightarrow> unmarshal_APIError env respBody = Inr decoded \<longrightarrow>
         fst (makeRequest env cfg now method endpoint body w) =
           (None, StatusCode resp, Some (APIErr decoded))) \<and>
     (\<forall>respBody e. Body resp = Inr respBody \<longrightarrow> unmarshal_APIError env respBody = Inl e \<longrightarrow>
         fst (makeRequest env cfg now method endpoint body w) =
           (None, StatusCode resp,
            Some (APIErr \<lparr>err_Message = respBody, err_Code = Sprintf_d (StatusCode resp),
                          err_Errors = None\<rparr>)))"
  using assms by (auto simp: makeRequest_def Let_def split: sum.splits)

theorem makeRequest_non_2xx_witness:
  "fst (makeRequest
          ((fake_env ''tok'')\<lparr>Do := \<lambda>req. Inr \<lparr>StatusCode = 404, Body = Inr ''Not Found''\<rparr>\<rparr>)
          test_config 7 ''POST'' ''/api/v4/verify'' None (new_world NewMemoryStorage)) =
     (None, 404, Some (APIErr \<lparr>err_Message = ''Not Found'', err_Code = ''404'', err_Errors = None\<rparr>))"
proof -
  let ?resp = "\<lparr>StatusCode = 404, Body = Inr ''Not Found''\<rparr>"
  let ?env = "(fake_env ''tok'')\<lparr>Do := \<lambda>req. Inr ?resp\<rparr>"
  have marshalled: "marshal_body ?env None = Inr None"
    by (simp add: marshal_body_def)
  have built: "http_NewRequest ?env ''POST'' (BaseURL test_config @ ''/api/v4/verify'') = None"
    by (simp add: fake_env_def)
  have answered: "Do ?env (api_request test_config 7 ''POST''
      (BaseURL test_config @ ''/api/v4/verify'') None) = Inr ?resp"
    by simp
  have status: "StatusCode ?resp < 200 \<or> 300 \<le> StatusCode ?resp"
    by simp
  have undecoded: "unmarshal_APIError ?env ''Not Found'' = Inl (Err ''unexpected end of JSON input'')"
    by (simp add: fake_env_def)
  from makeRequest_non_2xx [OF marshalled built answered status, of "new_world NewMemoryStorage"]
    undecoded
  show ?thesis
    by (simp add: Sprintf_d_def digits.simps digit_char_def)
qed

subsection \<open>The gateway client: initiation and verification\<close>

lemma makeRequest_store_eq:
  "makeRequest env cfg now verb endpoint body w = (res, w1) \<Longrightarrow> store w1 = store w"
  using makeRequest_store [of env cfg now verb endpoint body w] by simp

lemma InitiatePayment_returns_gateway_response:
  assumes "makeRequest env cfg (clock 0) ''POST'' ''/api/v4/send''
             (Some (init_apiReq cfg (init_request cfg amount description) metadata)) w =
           ((Some respBody, code, None), w1)"
    and "unmarshal_PaymentInitResponse env respBody = Inr apiResp"
    and "init_Status apiResp = 1"
  shows "fst (InitiatePayment env storage cfg clock amount description metadata w) = (Some apiResp, None)"
  using assms by (simp add: InitiatePayment_def Let_def split: prod.splits option.splits)

lemma InitiatePayment_memory_store:
  assumes "makeRequest env cfg (clock 0) ''POST'' ''/api/v4/send''
             (Some (init_apiReq cfg (init_request cfg amount description) metadata)) w =
           ((Some respBody, code, None), w1)"
    and "unmarshal_PaymentInitResponse env respBody = Inr apiResp"
    and "init_Status apiResp = 1"
  shows "store (snd (InitiatePayment env memoryStorage cfg clock amount description metadata w)) =
     (store w)(init_Token apiResp \<mapsto>
        \<lparr>ID = generateRequestID (clock 1), Token = init_Token apiResp, Amount = amount,
         Status = ''INIT'', Description = description, Metadata = metadata, TransactionID = 0,
         CID = [], CardNumber = [], CardHash = [], CreatedAt = clock 2, UpdatedAt = clock 3,
         CompletedAt = None\<rparr>)"
  using assms makeRequest_store_eq [OF assms(1)]
  by (simp add: InitiatePayment_def Let_def memoryStorage_def StoreTransaction_def
      generateRequestID_nonempty init_request_def)

text \<open>The fake gateway answers every request that has a body with status 200.\<close>

lemma fake_makeRequest:
  "makeRequest (fake_env tok) cfg now method endpoint (Some apiReq) (new_world s) =
     ((Some ''{}'', 200, None),
      \<lparr>store = s,
       sent = [api_request cfg now method (BaseURL cfg @ endpoint) (Some ''{}'')],
       logged = [(''DEBUG'', ''Making API request''), (''DEBUG'', ''Received API response'')]\<rparr>)"
  by (simp add: makeRequest_def marshal_body_def fake_env_def new_world_def logger_def Let_def)

text \<open>
  Claim C6, as amended. When the gateway answers the initiation request with a body that
  decodes to a response of status 1, \<open>InitiatePayment\<close> returns that response and no
  error, whatever the store does with the new transaction, also when \<open>StoreTransaction\<close>
  fails. With the in-memory store and a response whose token is not empty,
  \<open>GetTransaction\<close> then returns for that token a transaction of status \<open>INIT\<close> with the
  token and the amount of the call.
\<close>

theorem InitiatePayment_success_persists:
  assumes "makeRequest env cfg (clock 0) ''POST'' ''/api/v4/send''
             (Some (init_apiReq cfg (init_request cfg amount description) metadata)) w =
           ((Some respBody, code, None), w1)"
    and "unmarshal_PaymentInitResponse env respBody = Inr apiResp"
    and "init_Status apiResp = 1"
  shows "fst (InitiatePayment env storage cfg clock amount description metadata w) = (Some apiResp, None) \<and>
    (init_Token apiResp \<noteq> [] \<longrightarrow>
       (\<exists>tx. GetTransaction (init_Token apiResp)
               (store (snd (InitiatePayment env memoryStorage cfg clock amount description metadata w))) =
               Inr tx \<and>
             Status tx = ''INIT'' \<and> Token tx = init_Token apiResp \<and> Amount tx = amount))"
  using InitiatePayment_returns_gateway_response [where clock = clock, OF assms]
    InitiatePayment_memory_store [where clock = clock, OF assms]
  by (simp add: GetTransaction_def)

theorem InitiatePayment_success_persists_witness:
  "fst (if_StoreTransaction failing_storage (Some (init_tx ''tok'')) NewMemoryStorage) \<noteq> None \<and>
   fst (InitiatePayment (fake_env ''tok'') failing_storage test_config test_clock 20000 ''order'' None
          (new_world NewMemoryStorage)) = (Some (fake_init_response ''tok''), None) \<and>
   (\<exists>tx. GetTransaction ''tok''
            (store (snd (InitiatePayment (fake_env ''tok'') memoryStorage test_config test_clock 20000
               ''order'' None (new_world NewMemoryStorage)))) = Inr tx \<and> Status tx = ''INIT'')"
proof -
  have decoded: "unmarshal_PaymentInitResponse (fake_env ''tok'') ''{}'' = Inr (fake_init_response ''tok'')"
    by (simp add: fake_env_def)
  have success: "init_Status (fake_init_response ''tok'') = 1"
    by (simp add: fake_init_response_def)
  have failing: "fst (if_StoreTransaction failing_storage (Some (init_tx ''tok'')) NewMemoryStorage) \<noteq> None"
    by (simp add: failing_storage_def)
  note sent = fake_makeRequest [of "''tok''" test_config "test_clock 0" "''POST''" "''/api/v4/send''"
      "init_apiReq test_config (init_request test_config 20000 ''order'') None" NewMemoryStorage]
  from InitiatePayment_success_persists [where clock = test_clock and storage = failing_storage, OF sent decoded success] failing
  show ?thesis
    by (auto simp: fake_init_response_def)
qed

text \<open>
  The claim as stated fails for a successful response that carries no token: the
  transaction is kept under the empty key and \<open>GetTransaction\<close> refuses the empty token.
\<close>

theorem InitiatePayment_empty_token_not_retrievable:
  "init_Status (fake_init_response []) = 1 \<and>
   fst (InitiatePayment (fake_env []) memoryStorage test_config test_clock 20000 ''order'' None
          (new_world NewMemoryStorage)) = (Some (fake_init_response []), None) \<and>
   GetTransaction (init_Token (fake_init_response []))
     (store (snd (InitiatePayment (fake_env []) memoryStorage test_config test_clock 20000 ''order'' None
          (new_world NewMemoryStorage)))) = Inl (Err ''token cannot be empty'')"
  by (simp add: InitiatePayment_def makeRequest_def marshal_body_def fake_env_def
      new_world_def memoryStorage_def StoreTransaction_def logger_def Let_def
      generateRequestID_nonempty fake_init_response_def GetTransaction_def)

lemma VerifyPayment_not_found:
  assumes "makeRequest env cfg (clock 0) ''POST'' ''/api/v4/verify''
             (Some (verify_apiReq cfg \<lparr>pvr_Token = token\<rparr>)) w = ((Some respBody, code, None), w1)"
    and "unmarshal_PaymentVerifyResponse env respBody = Inr apiResp"
    and "verify_Status apiResp = 1"
    and "if_GetTransaction storage token (store w1) = (Inl e, s1)"
  shows "VerifyPayment env storage cfg clock token w =
     ((Some apiResp, None), logger ''WARN'' ''Transaction not found in storage'' (w1\<lparr>store := s1\<rparr>))"
  using assms by (simp add: VerifyPayment_def Let_def)

text \<open>
  Claim C8. When the gateway answers the verification request with a response of status 1
  and \<open>GetTransaction\<close> finds no transaction for the token, \<open>VerifyPayment\<close> returns the
  decoded response as it is, with no error, and the store is as it was.
\<close>

theorem VerifyPayment_without_local_transaction:
  assumes "makeRequest env cfg (clock 0) ''POST'' ''/api/v4/verify''
             (Some (verify_apiReq cfg \<lparr>pvr_Token = token\<rparr>)) w = ((Some respBody, code, None), w1)"
    and "unmarshal_PaymentVerifyResponse env respBody = Inr apiResp"
    and "verify_Status apiResp = 1"
    and "GetTransaction token (store w) = Inl e"
  shows "fst (VerifyPayment env memoryStorage cfg clock token w) = (Some apiResp, None) \<and>
     store (snd (VerifyPayment env memoryStorage cfg clock token w)) = store w"
proof -
  have same: "store w1 = store w"
    using assms(1) by (rule makeRequest_store_eq)
  have "if_GetTransaction memoryStorage token (store w1) = (Inl e, store w)"
    using assms(4) same by (simp add: memoryStorage_def)
  from VerifyPayment_not_found [where clock = clock, OF assms(1-3) this] show ?thesis
    by (simp add: logger_def)
qed

theorem VerifyPayment_without_local_transaction_witness:
  "fst (VerifyPayment (fake_env ''tok'') memoryStorage test_config test_clock ''unknown''
          (new_world [''tok'' \<mapsto> init_tx ''tok''])) = (Some fake_verify_response, None) \<and>
   store (snd (VerifyPayment (fake_env ''tok'') memoryStorage test_config test_clock ''unknown''
          (new_world [''tok'' \<mapsto> init_tx ''tok'']))) = [''tok'' \<mapsto> init_tx ''tok'']"
proof -
  note sent = fake_makeRequest [of "''tok''" test_config "test_clock 0" "''POST''" "''/api/v4/verify''"
      "verify_apiReq test_config \<lparr>pvr_Token = ''unknown''\<rparr>" "[''tok'' \<mapsto> init_tx ''tok'']"]
  have decoded: "unmarshal_PaymentVerifyResponse (fake_env ''tok'') ''{}'' = Inr fake_verify_response"
    by (simp add: fake_env_def)
  have success: "verify_Status fake_verify_response = 1"
    by (simp add: fake_verify_response_def)
  have missing: "GetTransaction ''unknown'' (store (new_world [''tok'' \<mapsto> init_tx ''tok''])) =
      Inl (Err ''transaction not found: unknown'')"
    by (simp add: GetTransaction_def new_world_def)
  from VerifyPayment_without_local_transaction [where clock = test_clock, OF sent decoded success missing]
  show ?thesis
    by (simp add: new_world_def)
qed

text \<open>
  Claim C7, as amended. In a store built by \<open>StoreTransaction\<close> and
  \<open>UpdateTransaction\<close>, let a transaction of status \<open>INIT\<close> be kept under a token that
  is not empty. When the gateway answers the verification request for that token with a
  response of status 1, the transaction kept under the token afterwards is the former one
  with status \<open>PAID\<close>, the gateway's transaction id, card number and card hash (\<open>CID\<close>),
  the completion time set and the update time read by the store; the entry of every other
  token is unchanged.
\<close>

theorem VerifyPayment_marks_paid:
  assumes "reachable (store w)"
    and "store w token = Some tx" and "token \<noteq> []"
    and "Status tx = ''INIT''"
    and "makeRequest env cfg (clock 0) ''POST'' ''/api/v4/verify''
             (Some (verify_apiReq cfg \<lparr>pvr_Token = token\<rparr>)) w = ((Some respBody, code, None), w1)"
    and "unmarshal_PaymentVerifyResponse env respBody = Inr apiResp"
    and "verify_Status apiResp = 1"
  shows "fst (VerifyPayment env memoryStorage cfg clock token w) = (Some apiResp, None) \<and>
     store (snd (VerifyPayment env memoryStorage cfg clock token w)) token =
       Some (tx\<lparr>Status := ''PAID'', TransactionID := verify_TransID apiResp,
                CardNumber := verify_CardNumber apiResp, CID := verify_CID apiResp,
                UpdatedAt := clock 3, CompletedAt := Some (clock 2)\<rparr>) \<and>
     (\<forall>k. k \<noteq> token \<longrightarrow>
        store (snd (VerifyPayment env memoryStorage cfg clock token w)) k = store w k)"
proof -
  have same: "store w1 = store w"
    using assms(5) by (rule makeRequest_store_eq)
  have found: "GetTransaction token (store w) = Inr tx"
    using assms(2,3) by (simp add: GetTransaction_def)
  have inv: "store_inv (store w)"
    using assms(1) by (rule reachable_store_inv)
  have key: "Token tx = token" and ident: "ID tx \<noteq> []"
    using inv assms(2) by (auto simp: store_inv_def)
  show ?thesis
    using assms(2,5,6,7) same found key ident
    by (simp add: VerifyPayment_def Let_def memoryStorage_def UpdateTransaction_def)
qed

theorem VerifyPayment_marks_paid_witness:
  "store (snd (VerifyPayment (fake_env ''tok'') memoryStorage test_config test_clock ''tok''
          (new_world [''other'' \<mapsto> init_tx ''other'', ''tok'' \<mapsto> init_tx ''tok''])))
     ''tok'' =
     Some ((init_tx ''tok'')\<lparr>Status := ''PAID'', TransactionID := 159178352177,
             CardNumber := ''603799******7999'', CID := ''ECDA7B'',
             UpdatedAt := test_clock 3, CompletedAt := Some (test_clock 2)\<rparr>) \<and>
   store (snd (VerifyPayment (fake_env ''tok'') memoryStorage test_config test_clock ''tok''
          (new_world [''other'' \<mapsto> init_tx ''other'', ''tok'' \<mapsto> init_tx ''tok''])))
     ''other'' = Some (init_tx ''other'')"
proof -
  let ?s = "[''other'' \<mapsto> init_tx ''other'', ''tok'' \<mapsto> init_tx ''tok'']"
  have "StoreTransaction (Some (init_tx ''other'')) NewMemoryStorage =
      (None, [''other'' \<mapsto> init_tx ''other''])"
    by (simp add: StoreTransaction_def init_tx_def NewMemoryStorage_def)
  from reachable_store [OF reachable_new this]
  have one: "reachable [''other'' \<mapsto> init_tx ''other'']" .
  have "StoreTransaction (Some (init_tx ''tok'')) [''other'' \<mapsto> init_tx ''other''] = (None, ?s)"
    by (simp add: StoreTransaction_def init_tx_def)
  from reachable_store [OF one this]
  have built: "reachable (store (new_world ?s))"
    by (simp add: new_world_def)
  have stored: "store (new_world ?s) ''tok'' = Some (init_tx ''tok'')"
    by (simp add: new_world_def)
  have named: "''tok'' \<noteq> []"
    by simp
  have init: "Status (init_tx ''tok'') = ''INIT''"
    by (simp add: init_tx_def)
  note sent = fake_makeRequest [of "''tok''" test_config "test_clock 0" "''POST''" "''/api/v4/verify''"
      "verify_apiReq test_config \<lparr>pvr_Token = ''tok''\<rparr>" ?s]
  have decoded: "unmarshal_PaymentVerifyResponse (fake_env ''tok'') ''{}'' = Inr fake_verify_response"
    by (simp add: fake_env_def)
  have success: "verify_Status fake_verify_response = 1"
    by (simp add: fake_verify_response_def)
  from VerifyPayment_marks_paid [where clock = test_clock, OF built stored named init sent decoded
      success]
  show ?thesis
    by (simp add: fake_verify_response_def new_world_def)
qed

text \<open>
  The claim as stated fails for the empty token: the store built by storing a transaction
  without token keeps it under the empty key, \<open>GetTransaction\<close> refuses that key, and after
  a successful verification of the empty token the transaction is still \<open>INIT\<close>.
\<close>

theorem VerifyPayment_empty_token_stays_init:
  "reachable [[] \<mapsto> init_tx []] \<and>
   Status (init_tx []) = ''INIT'' \<and>
   verify_Status fake_verify_response = 1 \<and>
   fst (VerifyPayment (fake_env ''tok'') memoryStorage test_config test_clock []
          (new_world [[] \<mapsto> init_tx []])) = (Some fake_verify_response, None) \<and>
   store (snd (VerifyPayment (fake_env ''tok'') memoryStorage test_config test_clock []
          (new_world [[] \<mapsto> init_tx []]))) [] = Some (init_tx [])"
proof -
  have "StoreTransaction (Some (init_tx [])) NewMemoryStorage = (None, [[] \<mapsto> init_tx []])"
    by (simp add: StoreTransaction_def init_tx_def NewMemoryStorage_def)
  from reachable_store [OF reachable_new this]
  have built: "reachable [[] \<mapsto> init_tx []]" .
  have rest: "Status (init_tx []) = ''INIT'' \<and>
   verify_Status fake_verify_response = 1 \<and>
   fst (VerifyPayment (fake_env ''tok'') memoryStorage test_config test_clock []
          (new_world [[] \<mapsto> init_tx []])) = (Some fake_verify_response, None) \<and>
   store (snd (VerifyPayment (fake_env ''tok'') memoryStorage test_config test_clock []
          (new_world [[] \<mapsto> init_tx []]))) [] = Some (init_tx [])"
    by (simp add: VerifyPayment_def makeRequest_def marshal_body_def fake_env_def new_world_def
        memoryStorage_def GetTransaction_def logger_def Let_def init_tx_def
        fake_verify_response_def)
  from built rest show ?thesis
    by simp
qed

subsection \<open>The routes\<close>

text \<open>
  Claim C3. The rate limiter of \<open>/payments/init\<close> is registered with the limit 10 and the
  window 60, a \<open>time.Duration\<close> of 60 nanoseconds and not of 60 seconds; the routes
  \<open>/payments/verify\<close>, \<open>/payments/status\<close> and \<open>/payments/refund\<close> have the same window.
  With these arguments a client that has used up its ten requests is served again 61
  nanoseconds after its last request.
\<close>

theorem RegisterRoutes_rate_limit_window:
  "route_rate_limit ''/payments/init'' = Some (10, 60) \<and>
   route_rate_limit ''/payments/verify'' = Some (10, 60) \<and>
   route_rate_limit ''/payments/status'' = Some (20, 60) \<and>
   route_rate_limit ''/payments/refund'' = Some (5, 60) \<and>
   (60 :: Duration) \<noteq> 60 * Second \<and>
   snd (RateLimitMiddleware test_lib 10 60 counting_handler 1061
          [''10.0.0.1'' \<mapsto> \<lparr>count = 10, lastSeen = 1000\<rparr>] new_writer test_request 0) =
     counting_handler new_writer test_request 0"
  by (simp add: route_rate_limit_def RegisterRoutes_def Second_def RateLimitMiddleware_def
      getClientIP_def Header_Get_def request_from_def test_request_def test_lib_def Let_def
      Time_Sub_def maxDuration_def minDuration_def)

subsection \<open>Splitting a string\<close>

lemma Split_nonempty: "Split s sep \<noteq> []"
  by (induction s) (auto split: list.splits)

lemma Split_no_sep: "sep \<notin> set a \<Longrightarrow> Split a sep = [a]"
  by (induction a) auto

lemma Split_at_sep: "sep \<notin> set a \<Longrightarrow> Split (a @ sep # rest) sep = a # Split rest sep"
  by (induction a) auto

lemma Split_pieces: "p \<in> set (Split s sep) \<Longrightarrow> sep \<notin> set p"
proof (induction s arbitrary: p)
  case Nil
  then show ?case by simp
next
  case (Cons c cs)
  show ?case
  proof (cases "c = sep")
    case True
    with Cons show ?thesis by auto
  next
    case False
    obtain q qs where split: "Split cs sep = q # qs"
      using Split_nonempty [of cs sep] by (cases "Split cs sep") auto
    with False Cons.prems have "p = c # q \<or> p \<in> set qs"
      by auto
    then show ?thesis
      using Cons.IH [of q] Cons.IH [of p] split False by auto
  qed
qed

lemma Split_single_D: "Split s sep = [a] \<Longrightarrow> s = a"
proof (induction s arbitrary: a)
  case Nil
  then show ?case by simp
next
  case (Cons c cs)
  show ?case
  proof (cases "c = sep")
    case True
    with Cons.prems show ?thesis by (simp add: Split_nonempty)
  next
    case False
    obtain q qs where split: "Split cs sep = q # qs"
      using Split_nonempty [of cs sep] by (cases "Split cs sep") auto
    with False Cons.prems have "a = c # q" and "qs = []"
      by auto
    with split Cons.IH [of q] show ?thesis by simp
  qed
qed

lemma Split_pair_D: "Split s sep = [a, b] \<Longrightarrow> s = a @ sep # b"
proof (induction s arbitrary: a)
  case Nil
  then show ?case by simp
next
  case (Cons c cs)
  show ?case
  proof (cases "c = sep")
    case True
    with Cons.prems have "a = []" and "Split cs sep = [b]"
      by auto
    with True Split_single_D [of cs sep b] show ?thesis by simp
  next
    case False
    obtain q qs where split: "Split cs sep = q # qs"
      using Split_nonempty [of cs sep] by (cases "Split cs sep") auto
    with False Cons.prems have "a = c # q" and "qs = [b]"
      by auto
    with split Cons.IH [of q] show ?thesis by simp
  qed
qed

lemma Split_pair: "Split s sep = [a, b] \<longleftrightarrow> s = a @ sep # b \<and> sep \<notin> set a \<and> sep \<notin> set b"
proof
  assume split: "Split s sep = [a, b]"
  then have "s = a @ sep # b"
    by (rule Split_pair_D)
  moreover have "sep \<notin> set a" and "sep \<notin> set b"
    using Split_pieces [of a s sep] Split_pieces [of b s sep] split by simp_all
  ultimately show "s = a @ sep # b \<and> sep \<notin> set a \<and> sep \<notin> set b"
    by simp
next
  assume "s = a @ sep # b \<and> sep \<notin> set a \<and> sep \<notin> set b"
  then show "Split s sep = [a, b]"
    by (simp add: Split_at_sep Split_no_sep)
qed

subsection \<open>Bearer authentication\<close>

lemma AuthMiddleware_missing:
  "Header_Get r ''Authorization'' = [] \<Longrightarrow>
   AuthMiddleware config next w r \<sigma> = (http_Error w ''Unauthorized'' StatusUnauthorized, \<sigma>)"
  by (simp add: AuthMiddleware_def)

lemma AuthMiddleware_bearer:
  assumes "Header_Get r ''Authorization'' = ''Bearer '' @ token" and "CHR '' '' \<notin> set token"
  shows "AuthMiddleware config next w r \<sigma> =
     (if token = APIKey config then next w r \<sigma>
      else (http_Error w ''Invalid API key'' StatusUnauthorized, \<sigma>))"
proof -
  have "Split (''Bearer '' @ token) (CHR '' '') = [''Bearer'', token]"
    using assms(2) by (subst Split_pair) simp
  then show ?thesis
    using assms(1) by (simp add: AuthMiddleware_def)
qed

lemma AuthMiddleware_malformed:
  assumes "Header_Get r ''Authorization'' \<noteq> []"
    and "\<nexists>token. Header_Get r ''Authorization'' = ''Bearer '' @ token \<and> CHR '' '' \<notin> set token"
  shows "AuthMiddleware config next w r \<sigma> =
     (http_Error w ''Invalid authorization format'' StatusUnauthorized, \<sigma>)"
proof -
  have "Split (Header_Get r ''Authorization'') (CHR '' '') \<noteq> [''Bearer'', token]" for token
    using assms(2) by (auto simp: Split_pair)
  then show ?thesis
    using assms(1) by (auto simp: AuthMiddleware_def Let_def split: list.splits)
qed

lemma http_Error_status: "rw_status w = None \<Longrightarrow> rw_status (http_Error w msg code) = Some code"
  by (simp add: http_Error_def Write_def WriteHeader_def Let_def)

lemma http_Error_body: "rw_body (http_Error w msg code) = rw_body w @ msg @ [CHR 0x0A]"
  by (simp add: http_Error_def Write_def WriteHeader_def Let_def split: option.splits)

text \<open>
  Claim C2, as amended. \<open>AuthMiddleware\<close> answers a request without \<open>Authorization\<close>
  header, a request whose header is not \<open>Bearer\<close>, one space and a token free of spaces,
  and a request whose token differs from the API key, each with status 401 and without
  running the wrapped handler: the result is the same for every handler, and the state is
  untouched. The three answers differ in their message: \<open>Unauthorized\<close>,
  \<open>Invalid authorization format\<close> and \<open>Invalid API key\<close>. A request whose header is
  \<open>Bearer\<close>, one space and the API key (itself free of spaces) is handed to the wrapped
  handler.
\<close>

theorem AuthMiddleware_rejects_or_passes:
  "(Header_Get r ''Authorization'' = [] \<longrightarrow>
      AuthMiddleware config next w r \<sigma> = (http_Error w ''Unauthorized'' StatusUnauthorized, \<sigma>)) \<and>
   (Header_Get r ''Authorization'' \<noteq> [] \<and>
    (\<nexists>token. Header_Get r ''Authorization'' = ''Bearer '' @ token \<and> CHR '' '' \<notin> set token) \<longrightarrow>
      AuthMiddleware config next w r \<sigma> =
        (http_Error w ''Invalid authorization format'' StatusUnauthorized, \<sigma>)) \<and>
   (\<forall>token. Header_Get r ''Authorization'' = ''Bearer '' @ token \<and> CHR '' '' \<notin> set token \<and>
      token \<noteq> APIKey config \<longrightarrow>
      AuthMiddleware config next w r \<sigma> = (http_Error w ''Invalid API key'' StatusUnauthorized, \<sigma>)) \<and>
   (Header_Get r ''Authorization'' = ''Bearer '' @ APIKey config \<and> CHR '' '' \<notin> set (APIKey config) \<longrightarrow>
      AuthMiddleware config next w r \<sigma> = next w r \<sigma>) \<and>
   (\<forall>msg. rw_status w = None \<longrightarrow>
      rw_status (http_Error w msg StatusUnauthorized) = Some 401 \<and>
      rw_body (http_Error w msg StatusUnauthorized) = rw_body w @ msg @ [CHR 0x0A])"
proof (intro conjI impI allI)
  assume "Header_Get r ''Authorization'' = []"
  then show "AuthMiddleware config next w r \<sigma> = (http_Error w ''Unauthorized'' StatusUnauthorized, \<sigma>)"
    by (rule AuthMiddleware_missing)
next
  assume "Header_Get r ''Authorization'' \<noteq> [] \<and>
    (\<nexists>token. Header_Get r ''Authorization'' = ''Bearer '' @ token \<and> CHR '' '' \<notin> set token)"
  then show "AuthMiddleware config next w r \<sigma> =
      (http_Error w ''Invalid authorization format'' StatusUnauthorized, \<sigma>)"
    using AuthMiddleware_malformed [of r config "next" w \<sigma>] by blast
next
  fix token
  assume "Header_Get r ''Authorization'' = ''Bearer '' @ token \<and> CHR '' '' \<notin> set token \<and>
    token \<noteq> APIKey config"
  then show "AuthMiddleware config next w r \<sigma> = (http_Error w ''Invalid API key'' StatusUnauthorized, \<sigma>)"
    using AuthMiddleware_bearer [of r token config "next" w \<sigma>] by simp
next
  assume "Header_Get r ''Authorization'' = ''Bearer '' @ APIKey config \<and> CHR '' '' \<notin> set (APIKey config)"
  then show "AuthMiddleware config next w r \<sigma> = next w r \<sigma>"
    using AuthMiddleware_bearer [of r "APIKey config" config "next" w \<sigma>] by simp
next
  fix msg
  assume "rw_status w = None"
  then show "rw_status (http_Error w msg StatusUnauthorized) = Some 401"
    by (simp add: http_Error_status StatusUnauthorized_def)
next
  fix msg
  show "rw_body (http_Error w msg StatusUnauthorized) = rw_body w @ msg @ [CHR 0x0A]"
    by (rule http_Error_body)
qed

theorem AuthMiddleware_rejects_or_passes_witness:
  "AuthMiddleware test_config counting_handler new_writer (bearer_request ''Bearer api_key'') 0 =
     (Write ''ok'' new_writer, 1) \<and>
   AuthMiddleware test_config counting_handler new_writer test_request 0 =
     (http_Error new_writer ''Unauthorized'' 401, 0) \<and>
   AuthMiddleware test_config counting_handler new_writer (bearer_request ''Basic abc'') 0 =
     (http_Error new_writer ''Invalid authorization format'' 401, 0) \<and>
   AuthMiddleware test_config counting_handler new_writer (bearer_request ''Bearer wrong'') 0 =
     (http_Error new_writer ''Invalid API key'' 401, 0) \<and>
   rw_status (http_Error new_writer ''Invalid API key'' 401) = Some 401"
proof -
  have key: "APIKey test_config = ''api_key''"
    by (simp add: test_config_def)
  have hdr: "Header_Get (bearer_request h) ''Authorization'' = h" for h
    by (simp add: Header_Get_def bearer_request_def request_from_def)
  have none: "Header_Get test_request ''Authorization'' = []"
    by (simp add: Header_Get_def test_request_def request_from_def)
  have basic: "\<nexists>token. ''Basic abc'' = ''Bearer '' @ token \<and> CHR '' '' \<notin> set token"
    by simp
  have fresh: "rw_status new_writer = None"
    by (simp add: new_writer_def)
  show ?thesis
    using AuthMiddleware_rejects_or_passes [of "bearer_request ''Bearer api_key''" test_config
        counting_handler new_writer 0]
      AuthMiddleware_rejects_or_passes [of test_request test_config counting_handler new_writer 0]
      AuthMiddleware_rejects_or_passes [of "bearer_request ''Basic abc''" test_config
        counting_handler new_writer 0]
      AuthMiddleware_rejects_or_passes [of "bearer_request ''Bearer wrong''" test_config
        counting_handler new_writer 0]
      key hdr none basic fresh
    by (simp add: counting_handler_def StatusUnauthorized_def)
qed

text \<open>
  The claim as stated fails where it says that the rejections are identical: the answer
  to a header of the wrong shape is not the answer to a wrong credential.
\<close>

theorem AuthMiddleware_rejections_differ:
  "fst (AuthMiddleware test_config counting_handler new_writer (bearer_request ''Basic abc'') 0) \<noteq>
   fst (AuthMiddleware test_config counting_handler new_writer (bearer_request ''Bearer wrong'') 0)"
  by (simp add: AuthMiddleware_def Header_Get_def bearer_request_def request_from_def
      test_config_def http_Error_def Write_def WriteHeader_def new_writer_def Let_def)

subsection \<open>Rate limiting\<close>

lemma Time_Sub_le: "0 \<le> t - u \<Longrightarrow> Time_Sub t u \<le> t - u"
  by (simp add: Time_Sub_def maxDuration_def minDuration_def)

lemma RateLimitMiddleware_fresh:
  assumes "getClientIP lib r = ip"
    and "clients ip = None \<or> (\<exists>c. clients ip = Some c \<and> window < Time_Sub now (lastSeen c))"
  shows "RateLimitMiddleware lib limit window next now clients w r \<sigma> =
     (clients(ip \<mapsto> \<lparr>count = 1, lastSeen = now\<rparr>), next w r \<sigma>)"
  using assms by (auto simp: RateLimitMiddleware_def Let_def)

lemma RateLimitMiddleware_counted:
  assumes "getClientIP lib r = ip" and "clients ip = Some c"
    and "\<not> window < Time_Sub now (lastSeen c)"
  shows "RateLimitMiddleware lib limit window next now clients w r \<sigma> =
     (clients(ip \<mapsto> \<lparr>count = count c + 1, lastSeen = now\<rparr>),
      if limit < count c + 1 then (http_Error w ''Rate limit exceeded'' StatusTooManyRequests, \<sigma>)
      else next w r \<sigma>)"
  using assms by (cases c) (simp add: RateLimitMiddleware_def Let_def)

text \<open>
  A request of another client leaves the entry of this client as it is, whatever its own
  verdict.
\<close>

lemma RateLimitMiddleware_other:
  assumes "getClientIP lib r \<noteq> ip"
  shows "\<exists>served clients'.
     RateLimitMiddleware lib limit window next now clients w r \<sigma> =
       (clients',
        if served then next w r \<sigma>
        else (http_Error w ''Rate limit exceeded'' StatusTooManyRequests, \<sigma>)) \<and>
     clients' ip = clients ip"
proof -
  let ?result = "RateLimitMiddleware lib limit window next now clients w r \<sigma>"
  have "(\<exists>clients'. ?result = (clients', next w r \<sigma>) \<and> clients' ip = clients ip) \<or>
        (\<exists>clients'. ?result =
            (clients', http_Error w ''Rate limit exceeded'' StatusTooManyRequests, \<sigma>) \<and>
          clients' ip = clients ip)"
    using assms by (auto simp: RateLimitMiddleware_def Let_def split: option.splits)
  then show ?thesis
  proof
    assume "\<exists>clients'. ?result = (clients', next w r \<sigma>) \<and> clients' ip = clients ip"
    then obtain clients' where "?result = (clients', next w r \<sigma>)" and "clients' ip = clients ip"
      by blast
    then show ?thesis
      by (intro exI [of _ True] exI [of _ clients']) simp
  next
    assume "\<exists>clients'. ?result =
        (clients', http_Error w ''Rate limit exceeded'' StatusTooManyRequests, \<sigma>) \<and>
      clients' ip = clients ip"
    then obtain clients' where
      "?result = (clients', http_Error w ''Rate limit exceeded'' StatusTooManyRequests, \<sigma>)"
      and "clients' ip = clients ip"
      by blast
    then show ?thesis
      by (intro exI [of _ False] exI [of _ clients']) simp
  qed
qed

lemma serve_limited_append:
  "serve_limited lib limit window next (xs @ ys) clients \<sigma> =
     (case serve_limited lib limit window next xs clients \<sigma> of
        (clients1, ws1, \<sigma>1) \<Rightarrow>
          (case serve_limited lib limit window next ys clients1 \<sigma>1 of
             (clients2, ws2, \<sigma>2) \<Rightarrow> (clients2, ws1 @ ws2, \<sigma>2)))"
  by (induction xs arbitrary: clients \<sigma>) (auto split: prod.splits)

lemma serve_as_append:
  "serve_as next (xs @ ys) \<sigma> =
     (case serve_as next xs \<sigma> of
        (ws1, \<sigma>1) \<Rightarrow> (case serve_as next ys \<sigma>1 of (ws2, \<sigma>2) \<Rightarrow> (ws1 @ ws2, \<sigma>2)))"
  by (induction xs arbitrary: \<sigma>) (auto split: prod.splits)

lemma serve_limited_step:
  assumes "RateLimitMiddleware lib limit window next now clients w r \<sigma> = (clients1, out)"
    and "out = (if served then next w r \<sigma>
                else (http_Error w ''Rate limit exceeded'' StatusTooManyRequests, \<sigma>))"
    and "serve_limited lib limit window next rest clients1 (snd out) =
         (clients2, serve_as next (zip verdicts rest) (snd out))"
  shows "serve_limited lib limit window next ((now, w, r) # rest) clients \<sigma> =
      (clients2, serve_as next (zip (served # verdicts) ((now, w, r) # rest)) \<sigma>)"
proof -
  obtain w' \<sigma>' where pair: "out = (w', \<sigma>')"
    by (cases out) auto
  have verdict: "(if served then next w r \<sigma>
      else (http_Error w ''Rate limit exceeded'' StatusTooManyRequests, \<sigma>)) = (w', \<sigma>')"
    using assms(2) pair by simp
  obtain ws \<sigma>'' where tail: "serve_as next (zip verdicts rest) \<sigma>' = (ws, \<sigma>'')"
    by (cases "serve_as next (zip verdicts rest) \<sigma>'") auto
  have "serve_limited lib limit window next ((now, w, r) # rest) clients \<sigma> = (clients2, w' # ws, \<sigma>'')"
    using assms(1,3) pair tail by simp
  moreover have "serve_as next (zip (served # verdicts) ((now, w, r) # rest)) \<sigma> = (w' # ws, \<sigma>'')"
    using tail by (simp only: zip_Cons_Cons serve_as.simps verdict prod.case)
  ultimately show ?thesis
    by simp
qed

lemma serve_limited_others:
  assumes "list_all (\<lambda>q. \<not> from_ip lib ip q) reqs"
  shows "\<exists>verdicts clients'.
     length verdicts = length reqs \<and>
     serve_limited lib limit window next reqs clients \<sigma> =
       (clients', serve_as next (zip verdicts reqs) \<sigma>) \<and>
     clients' ip = clients ip"
  using assms
proof (induction reqs arbitrary: clients \<sigma>)
  case Nil
  then show ?case by simp
next
  case (Cons q reqs)
  obtain now w r where q: "q = (now, w, r)"
    by (cases q) auto
  have other: "getClientIP lib r \<noteq> ip"
    using Cons.prems q by (simp add: from_ip_def)
  let ?out = "\<lambda>served. if served then next w r \<sigma>
      else (http_Error w ''Rate limit exceeded'' StatusTooManyRequests, \<sigma>)"
  from RateLimitMiddleware_other [of lib r ip limit window "next" now clients w \<sigma>] other
  obtain served clients1 where
    step: "RateLimitMiddleware lib limit window next now clients w r \<sigma> = (clients1, ?out served)"
    and frame: "clients1 ip = clients ip"
    by blast
  have "list_all (\<lambda>q. \<not> from_ip lib ip q) reqs"
    using Cons.prems by simp
  from Cons.IH [OF this, of clients1 "snd (?out served)"]
  obtain verdicts clients2 where
    len: "length verdicts = length reqs"
    and rest: "serve_limited lib limit window next reqs clients1 (snd (?out served)) =
       (clients2, serve_as next (zip verdicts reqs) (snd (?out served)))"
    and frame2: "clients2 ip = clients1 ip"
    by blast
  have "serve_limited lib limit window next (q # reqs) clients \<sigma> =
      (clients2, serve_as next (zip (served # verdicts) (q # reqs)) \<sigma>)"
    unfolding q using step refl rest by (rule serve_limited_step)
  moreover have "length (served # verdicts) = length (q # reqs)"
    using len by simp
  moreover have "clients2 ip = clients ip"
    using frame frame2 by simp
  ultimately show ?case
    by blast
qed

text \<open>
  Within the window and below the limit every request of the client is served, whatever
  other clients send in between; the limiter has counted them and seen the last.
\<close>

lemma serve_limited_within:
  assumes "clients ip = Some c"
    and "sorted (lastSeen c # map fst reqs)"
    and "list_all (\<lambda>q. fst q \<le> hi) reqs" and "lastSeen c \<le> hi"
    and "hi - lastSeen c \<le> window"
    and "count c + int (length (filter (from_ip lib ip) reqs)) \<le> limit"
  shows "\<exists>verdicts clients' c'.
     list_all2 (\<lambda>served q. from_ip lib ip q \<longrightarrow> served) verdicts reqs \<and>
     serve_limited lib limit window next reqs clients \<sigma> =
       (clients', serve_as next (zip verdicts reqs) \<sigma>) \<and>
     clients' ip = Some c' \<and>
     count c' = count c + int (length (filter (from_ip lib ip) reqs)) \<and>
     lastSeen c \<le> lastSeen c' \<and> lastSeen c' \<le> hi"
  using assms
proof (induction reqs arbitrary: clients c \<sigma>)
  case Nil
  then show ?case by simp
next
  case (Cons q reqs)
  obtain now w r where q: "q = (now, w, r)"
    by (cases q) auto
  have ge: "lastSeen c \<le> now" and le: "now \<le> hi"
    and ordered: "sorted (now # map fst reqs)" and bounded: "list_all (\<lambda>q. fst q \<le> hi) reqs"
    using Cons.prems(2,3) q by auto
  let ?out = "\<lambda>served. if served then next w r \<sigma>
      else (http_Error w ''Rate limit exceeded'' StatusTooManyRequests, \<sigma>)"
  show ?case
  proof (cases "getClientIP lib r = ip")
    case True
    have mine: "from_ip lib ip q"
      using True q by (simp add: from_ip_def)
    have "Time_Sub now (lastSeen c) \<le> now - lastSeen c"
      using ge by (intro Time_Sub_le) simp
    then have within: "\<not> window < Time_Sub now (lastSeen c)"
      using le Cons.prems(5) by linarith
    have room: "\<not> limit < count c + 1"
      using Cons.prems(6) mine by simp
    let ?c = "\<lparr>count = count c + 1, lastSeen = now\<rparr>"
    let ?clients = "clients(ip \<mapsto> ?c)"
    have step: "RateLimitMiddleware lib limit window next now clients w r \<sigma> = (?clients, ?out True)"
      using RateLimitMiddleware_counted [of lib r ip clients c window now limit "next" w \<sigma>]
        True Cons.prems(1) within room by simp
    have "\<exists>verdicts clients' c'.
       list_all2 (\<lambda>served q. from_ip lib ip q \<longrightarrow> served) verdicts reqs \<and>
       serve_limited lib limit window next reqs ?clients (snd (?out True)) =
         (clients', serve_as next (zip verdicts reqs) (snd (?out True))) \<and>
       clients' ip = Some c' \<and>
       count c' = count ?c + int (length (filter (from_ip lib ip) reqs)) \<and>
       lastSeen ?c \<le> lastSeen c' \<and> lastSeen c' \<le> hi"
    proof (rule Cons.IH)
      show "?clients ip = Some ?c" by simp
      show "sorted (lastSeen ?c # map fst reqs)"
        using ordered by simp
      show "list_all (\<lambda>q. fst q \<le> hi) reqs"
        by (rule bounded)
      show "lastSeen ?c \<le> hi"
        using le by simp
      show "hi - lastSeen ?c \<le> window"
        using Cons.prems(5) ge by simp
      show "count ?c + int (length (filter (from_ip lib ip) reqs)) \<le> limit"
        using Cons.prems(6) mine by simp
    qed
    then obtain verdicts clients' c' where
      all: "list_all2 (\<lambda>served q. from_ip lib ip q \<longrightarrow> served) verdicts reqs"
      and rest: "serve_limited lib limit window next reqs ?clients (snd (?out True)) =
         (clients', serve_as next (zip verdicts reqs) (snd (?out True)))"
      and entry: "clients' ip = Some c'"
      and counted: "count c' = count ?c + int (length (filter (from_ip lib ip) reqs))"
      and seen: "lastSeen ?c \<le> lastSeen c'" "lastSeen c' \<le> hi"
      by blast
    have "serve_limited lib limit window next (q # reqs) clients \<sigma> =
        (clients', serve_as next (zip (True # verdicts) (q # reqs)) \<sigma>)"
      unfolding q using step refl rest by (rule serve_limited_step)
    moreover have "list_all2 (\<lambda>served q. from_ip lib ip q \<longrightarrow> served) (True # verdicts) (q # reqs)"
      using all by simp
    moreover have "count c' = count c + int (length (filter (from_ip lib ip) (q # reqs)))"
      using counted mine by simp
    moreover have "lastSeen c \<le> lastSeen c'"
      using seen(1) ge by simp
    ultimately show ?thesis
      using entry seen(2) by blast
  next
    case False
    have other: "\<not> from_ip lib ip q"
      using False q by (simp add: from_ip_def)
    from RateLimitMiddleware_other [of lib r ip limit window "next" now clients w \<sigma>] False
    obtain served clients1 where
      step: "RateLimitMiddleware lib limit window next now clients w r \<sigma> = (clients1, ?out served)"
      and frame: "clients1 ip = clients ip"
      by blast
    have "\<exists>verdicts clients' c'.
       list_all2 (\<lambda>served q. from_ip lib ip q \<longrightarrow> served) verdicts reqs \<and>
       serve_limited lib limit window next reqs clients1 (snd (?out served)) =
         (clients', serve_as next (zip verdicts reqs) (snd (?out served))) \<and>
       clients' ip = Some c' \<and>
       count c' = count c + int (length (filter (from_ip lib ip) reqs)) \<and>
       lastSeen c \<le> lastSeen c' \<and> lastSeen c' \<le> hi"
    proof (rule Cons.IH)
      show "clients1 ip = Some c"
        using frame Cons.prems(1) by simp
      show "sorted (lastSeen c # map fst reqs)"
        using ordered ge by auto
      show "list_all (\<lambda>q. fst q \<le> hi) reqs"
        by (rule bounded)
      show "lastSeen c \<le> hi"
        by (rule Cons.prems(4))
      show "hi - lastSeen c \<le> window"
        by (rule Cons.prems(5))
      show "count c + int (length (filter (from_ip lib ip) reqs)) \<le> limit"
        using Cons.prems(6) other by simp
    qed
    then obtain verdicts clients' c' where
      all: "list_all2 (\<lambda>served q. from_ip lib ip q \<longrightarrow> served) verdicts reqs"
      and rest: "serve_limited lib limit window next reqs clients1 (snd (?out served)) =
         (clients', serve_as next (zip verdicts reqs) (snd (?out served)))"
      and entry: "clients' ip = Some c'"
      and counted: "count c' = count c + int (length (filter (from_ip lib ip) reqs))"
      and seen: "lastSeen c \<le> lastSeen c'" "lastSeen c' \<le> hi"
      by blast
    have "serve_limited lib limit window next (q # reqs) clients \<sigma> =
        (clients', serve_as next (zip (served # verdicts) (q # reqs)) \<sigma>)"
      unfolding q using step refl rest by (rule serve_limited_step)
    moreover have "list_all2 (\<lambda>served q. from_ip lib ip q \<longrightarrow> served) (served # verdicts) (q # reqs)"
      using all other by simp
    moreover have "count c' = count c + int (length (filter (from_ip lib ip) (q # reqs)))"
      using counted other by simp
    ultimately show ?thesis
      using entry seen by blast
  qed
qed

text \<open>
  Claim C4, as amended. Let the limit be at least one. Let a client IP send a request at
  a moment when the limiter does not know the IP or last saw it more than the window ago,
  and then, in the order of their times and with requests of other clients anywhere in
  between, further requests up to the limit and one more, this last one no more than the
  window after the first. Then every request of the IP but the last is handed to the
  wrapped handler, and the last is answered with status 429 without the handler, the state
  being as the requests before it left it. After that, whatever other clients send, a
  request of the IP arriving more than the window after the rejected one is handed to the
  handler, and the counter of the IP is one again.
\<close>

theorem RateLimitMiddleware_limit_and_reset:
  assumes "getClientIP lib r0 = ip" and "getClientIP lib r = ip"
    and "int (length (filter (from_ip lib ip) mid)) + 1 = limit"
    and "sorted (t0 # map fst mid @ [t])"
    and "t - t0 \<le> window"
    and "clients ip = None \<or> (\<exists>c. clients ip = Some c \<and> window < Time_Sub t0 (lastSeen c))"
  shows "\<exists>verdicts clients'.
     list_all2 (\<lambda>served q. from_ip lib ip q \<longrightarrow> served) verdicts mid \<and>
     serve_limited lib limit window next ((t0, w0, r0) # mid @ [(t, w, r)]) clients \<sigma> =
       (clients',
        serve_as next (zip (True # verdicts @ [False]) ((t0, w0, r0) # mid @ [(t, w, r)])) \<sigma>) \<and>
     (\<forall>others t' w' r' \<sigma>'.
        list_all (\<lambda>q. \<not> from_ip lib ip q) others \<and> getClientIP lib r' = ip \<and>
        window < Time_Sub t' t \<longrightarrow>
        (\<exists>verdicts' clients''.
           length verdicts' = length others \<and>
           serve_limited lib limit window next (others @ [(t', w', r')]) clients' \<sigma>' =
             (clients'',
              serve_as next (zip (verdicts' @ [True]) (others @ [(t', w', r')])) \<sigma>') \<and>
           clients'' ip = Some \<lparr>count = 1, lastSeen = t'\<rparr>))"
proof -
  let ?c1 = "\<lparr>count = 1, lastSeen = t0\<rparr>"
  let ?clients1 = "clients(ip \<mapsto> ?c1)"
  let ?reject = "\<lambda>w \<sigma>. (http_Error w ''Rate limit exceeded'' StatusTooManyRequests, \<sigma>)"
  have first: "RateLimitMiddleware lib limit window next t0 clients w0 r0 \<sigma> = (?clients1, next w0 r0 \<sigma>)"
    using RateLimitMiddleware_fresh [of lib r0 ip clients window t0 limit "next" w0 \<sigma>]
      assms(1,6) by simp
  let ?\<sigma>1 = "snd (next w0 r0 \<sigma>)"
  have t0_le: "t0 \<le> t"
    using assms(4) by (simp add: sorted_append)
  have "\<exists>verdicts clients' c'.
     list_all2 (\<lambda>served q. from_ip lib ip q \<longrightarrow> served) verdicts mid \<and>
     serve_limited lib limit window next mid ?clients1 ?\<sigma>1 =
       (clients', serve_as next (zip verdicts mid) ?\<sigma>1) \<and>
     clients' ip = Some c' \<and>
     count c' = count ?c1 + int (length (filter (from_ip lib ip) mid)) \<and>
     lastSeen ?c1 \<le> lastSeen c' \<and> lastSeen c' \<le> t"
  proof (rule serve_limited_within)
    show "?clients1 ip = Some ?c1" by simp
    show "sorted (lastSeen ?c1 # map fst mid)"
      using assms(4) by (simp add: sorted_append)
    show "list_all (\<lambda>q. fst q \<le> t) mid"
      using assms(4) by (auto simp: sorted_append list_all_iff)
    show "lastSeen ?c1 \<le> t"
      using t0_le by simp
    show "t - lastSeen ?c1 \<le> window"
      using assms(5) by simp
    show "count ?c1 + int (length (filter (from_ip lib ip) mid)) \<le> limit"
      using assms(3) by simp
  qed
  then obtain verdicts clients2 c2 where
    all: "list_all2 (\<lambda>served q. from_ip lib ip q \<longrightarrow> served) verdicts mid"
    and middle: "serve_limited lib limit window next mid ?clients1 ?\<sigma>1 =
       (clients2, serve_as next (zip verdicts mid) ?\<sigma>1)"
    and entry: "clients2 ip = Some c2" and full: "count c2 = limit"
    and seen: "t0 \<le> lastSeen c2" "lastSeen c2 \<le> t"
    using assms(3) by auto
  have len: "length verdicts = length mid"
    using all by (rule list_all2_lengthD)
  obtain ws2 \<sigma>2 where served: "serve_as next (zip verdicts mid) ?\<sigma>1 = (ws2, \<sigma>2)"
    by (cases "serve_as next (zip verdicts mid) ?\<sigma>1") auto
  have "Time_Sub t (lastSeen c2) \<le> t - lastSeen c2"
    using seen(2) by (intro Time_Sub_le) simp
  then have within: "\<not> window < Time_Sub t (lastSeen c2)"
    using assms(5) seen(1) by linarith
  let ?clients3 = "clients2(ip \<mapsto> \<lparr>count = limit + 1, lastSeen = t\<rparr>)"
  have final: "RateLimitMiddleware lib limit window next t clients2 w r \<sigma>2 = (?clients3, ?reject w \<sigma>2)"
    using RateLimitMiddleware_counted [of lib r ip clients2 c2 window t limit "next" w \<sigma>2]
      assms(2) entry within full by simp
  have last: "serve_limited lib limit window next [(t, w, r)] clients2 \<sigma>2 =
      (?clients3, serve_as next (zip [False] [(t, w, r)]) \<sigma>2)"
    using final by simp
  have tail: "serve_limited lib limit window next (mid @ [(t, w, r)]) ?clients1 ?\<sigma>1 =
      (?clients3, serve_as next (zip (verdicts @ [False]) (mid @ [(t, w, r)])) ?\<sigma>1)"
    using middle served last len by (simp add: serve_limited_append serve_as_append)
  have run: "serve_limited lib limit window next ((t0, w0, r0) # mid @ [(t, w, r)]) clients \<sigma> =
      (?clients3,
       serve_as next (zip (True # verdicts @ [False]) ((t0, w0, r0) # mid @ [(t, w, r)])) \<sigma>)"
    by (rule serve_limited_step [where served = True and out = "next w0 r0 \<sigma>"])
      (use first tail in simp_all)
  have again: "\<exists>verdicts' clients''.
       length verdicts' = length others \<and>
       serve_limited lib limit window next (others @ [(t', w', r')]) ?clients3 \<sigma>' =
         (clients'', serve_as next (zip (verdicts' @ [True]) (others @ [(t', w', r')])) \<sigma>') \<and>
       clients'' ip = Some \<lparr>count = 1, lastSeen = t'\<rparr>"
    if others: "list_all (\<lambda>q. \<not> from_ip lib ip q) others" and mine: "getClientIP lib r' = ip"
      and elapsed: "window < Time_Sub t' t" for others t' w' r' \<sigma>'
  proof -
    from serve_limited_others [OF others, of limit window "next" ?clients3 \<sigma>']
    obtain verdicts' clients4 where
      len': "length verdicts' = length others"
      and between: "serve_limited lib limit window next others ?clients3 \<sigma>' =
         (clients4, serve_as next (zip verdicts' others) \<sigma>')"
      and kept: "clients4 ip = ?clients3 ip"
      by blast
    obtain ws4 \<sigma>4 where out: "serve_as next (zip verdicts' others) \<sigma>' = (ws4, \<sigma>4)"
      by (cases "serve_as next (zip verdicts' others) \<sigma>'") auto
    let ?clients5 = "clients4(ip \<mapsto> \<lparr>count = 1, lastSeen = t'\<rparr>)"
    obtain w5 \<sigma>5 where handled: "next w' r' \<sigma>4 = (w5, \<sigma>5)"
      by (cases "next w' r' \<sigma>4") auto
    have "RateLimitMiddleware lib limit window next t' clients4 w' r' \<sigma>4 = (?clients5, w5, \<sigma>5)"
      using RateLimitMiddleware_fresh [of lib r' ip clients4 window t' limit "next" w' \<sigma>4]
        mine kept elapsed handled by simp
    then have "serve_limited lib limit window next [(t', w', r')] clients4 \<sigma>4 = (?clients5, [w5], \<sigma>5)"
      by simp
    then have limited: "serve_limited lib limit window next (others @ [(t', w', r')]) ?clients3 \<sigma>' =
        (?clients5, ws4 @ [w5], \<sigma>5)"
      using between out by (simp add: serve_limited_append)
    have "serve_as next (zip [True] [(t', w', r')]) \<sigma>4 = ([w5], \<sigma>5)"
      using handled by simp
    then have "serve_as next (zip (verdicts' @ [True]) (others @ [(t', w', r')])) \<sigma>' =
        (ws4 @ [w5], \<sigma>5)"
      using out len' by (simp add: serve_as_append)
    with limited have "serve_limited lib limit window next (others @ [(t', w', r')]) ?clients3 \<sigma>' =
        (?clients5, serve_as next (zip (verdicts' @ [True]) (others @ [(t', w', r')])) \<sigma>')"
      by simp
    moreover have "?clients5 ip = Some \<lparr>count = 1, lastSeen = t'\<rparr>"
      by simp
    ultimately show ?thesis
      using len' by blast
  qed
  show ?thesis
    using all run again by blast
qed

theorem RateLimitMiddleware_limit_and_reset_witness:
  "(\<exists>verdicts clients'.
      list_all2 (\<lambda>served q. from_ip test_lib ''10.0.0.1'' q \<longrightarrow> served) verdicts
        [(1500, new_writer, other_request), (2000, new_writer, test_request),
         (2500, new_writer, other_request)] \<and>
      serve_limited test_lib 2 (60 * Second) counting_handler
        ((1000, new_writer, test_request) #
         [(1500, new_writer, other_request), (2000, new_writer, test_request),
          (2500, new_writer, other_request)] @ [(3000, new_writer, test_request)]) Map.empty 0 =
        (clients',
         serve_as counting_handler
           (zip (True # verdicts @ [False])
              ((1000, new_writer, test_request) #
               [(1500, new_writer, other_request), (2000, new_writer, test_request),
                (2500, new_writer, other_request)] @ [(3000, new_writer, test_request)])) 0)) \<and>
   snd (serve_limited test_lib 2 (60 * Second) counting_handler
          [(1000, new_writer, test_request), (1500, new_writer, other_request),
           (2000, new_writer, test_request), (2500, new_writer, other_request),
           (3000, new_writer, test_request), (3500, new_writer, other_request),
           (3000 + 61 * Second, new_writer, test_request)] Map.empty 0) =
     ([Write ''ok'' new_writer, Write ''ok'' new_writer, Write ''ok'' new_writer,
       Write ''ok'' new_writer,
       http_Error new_writer ''Rate limit exceeded'' StatusTooManyRequests,
       http_Error new_writer ''Rate limit exceeded'' StatusTooManyRequests,
       Write ''ok'' new_writer], 5)"
proof -
  let ?mid = "[(1500 :: Time, new_writer, other_request), (2000, new_writer, test_request),
    (2500, new_writer, other_request)]"
  have mine: "getClientIP test_lib test_request = ''10.0.0.1''"
    by (simp add: getClientIP_def Header_Get_def test_request_def request_from_def test_lib_def)
  have other: "getClientIP test_lib other_request = ''10.0.0.2''"
    by (simp add: getClientIP_def Header_Get_def other_request_def request_from_def test_lib_def)
  have count: "int (length (filter (from_ip test_lib ''10.0.0.1'') ?mid)) + 1 = 2"
    using mine other by (simp add: from_ip_def)
  have ordered: "sorted ((1000 :: Time) # map fst ?mid @ [3000])"
    by simp
  have span: "(3000 :: Time) - 1000 \<le> 60 * Second"
    by (simp add: Second_def)
  have unknown: "Map.empty ''10.0.0.1'' = None \<or>
      (\<exists>c. Map.empty ''10.0.0.1'' = Some c \<and> 60 * Second < Time_Sub 1000 (lastSeen c))"
    by simp
  from RateLimitMiddleware_limit_and_reset [OF mine mine count ordered span unknown,
      of counting_handler new_writer new_writer 0]
  have limited: "\<exists>verdicts clients'.
      list_all2 (\<lambda>served q. from_ip test_lib ''10.0.0.1'' q \<longrightarrow> served) verdicts ?mid \<and>
      serve_limited test_lib 2 (60 * Second) counting_handler
        ((1000, new_writer, test_request) # ?mid @ [(3000, new_writer, test_request)]) Map.empty 0 =
        (clients',
         serve_as counting_handler
           (zip (True # verdicts @ [False])
              ((1000, new_writer, test_request) # ?mid @ [(3000, new_writer, test_request)])) 0)"
    by blast
  have run: "snd (serve_limited test_lib 2 (60 * Second) counting_handler
          [(1000, new_writer, test_request), (1500, new_writer, other_request),
           (2000, new_writer, test_request), (2500, new_writer, other_request),
           (3000, new_writer, test_request), (3500, new_writer, other_request),
           (3000 + 61 * Second, new_writer, test_request)] Map.empty 0) =
     ([Write ''ok'' new_writer, Write ''ok'' new_writer, Write ''ok'' new_writer,
       Write ''ok'' new_writer,
       http_Error new_writer ''Rate limit exceeded'' StatusTooManyRequests,
       http_Error new_writer ''Rate limit exceeded'' StatusTooManyRequests,
       Write ''ok'' new_writer], 5)"
    using mine other
    by (simp add: RateLimitMiddleware_def Let_def counting_handler_def Time_Sub_def Second_def
        maxDuration_def minDuration_def)
  from limited run show ?thesis
    by blast
qed

text \<open>
  The claim as stated fails for the limit zero: the first request of a client, which is
  then the one more than the limit, is handed to the handler. It also fails when the
  limiter has seen the client within the window before: at the limit two, of three requests
  within the window that follow an earlier one, the second is already answered with
  status 429.
\<close>

theorem RateLimitMiddleware_limit_zero_or_seen_before:
  "snd (RateLimitMiddleware test_lib 0 (60 * Second) counting_handler 1000 Map.empty new_writer
          test_request 0) = (Write ''ok'' new_writer, 1) \<and>
   rw_status (Write ''ok'' new_writer) = Some 200 \<and>
   snd (serve_limited test_lib 2 (60 * Second) counting_handler
          [(0, new_writer, test_request), (1000, new_writer, test_request),
           (2000, new_writer, test_request), (3000, new_writer, test_request)] Map.empty 0) =
     ([Write ''ok'' new_writer, Write ''ok'' new_writer,
       http_Error new_writer ''Rate limit exceeded'' StatusTooManyRequests,
       http_Error new_writer ''Rate limit exceeded'' StatusTooManyRequests], 2)"
  by (simp add: RateLimitMiddleware_def Let_def counting_handler_def Write_def WriteHeader_def
      new_writer_def getClientIP_def Header_Get_def test_request_def request_from_def
      test_lib_def Time_Sub_def Second_def maxDuration_def minDuration_def)

end
